theory Spec2Isabelle
  imports Complex_Main
begin

section \<open>Numbers and text\<close>

text \<open>
  A JavaScript number is modelled as a real number: every arithmetic operation of the
  source is taken exactly, and the values NaN and Infinity do not occur.  The results
  below are statements about this idealisation of the double-precision arithmetic.

  \<open>Math.round\<close> rounds to the nearest integer, a half towards plus infinity.
\<close>

definition Math_round :: "real \<Rightarrow> int" where
  "Math_round x = \<lfloor>x + 1 / 2\<rfloor>"

text \<open>
  A template literal is kept as the list of its pieces: the literal text, and every
  interpolated number together with the way the source renders it (plainly, or by
  \<open>toFixed\<close> with a number of digits), the rendering of digits itself left undone.
\<close>

datatype piece =
    Lit string
  | Num real
  | IntNum int
  | Fixed nat real

text \<open>
  A property read \<open>obj[key]\<close> on an object literal also finds what the object inherits
  from \<open>Object.prototype\<close>: for each of the keys below the read yields a function (for
  \<open>__proto__\<close> the prototype object itself), a value that is not falsy and that has
  none of the properties of the table's entries.
\<close>

definition Object_prototype_keys :: "string list" where
  "Object_prototype_keys =
     [''constructor'', ''hasOwnProperty'', ''isPrototypeOf'', ''propertyIsEnumerable'',
      ''toLocaleString'', ''toString'', ''valueOf'', ''__proto__'',
      ''__defineGetter__'', ''__defineSetter__'', ''__lookupGetter__'',
      ''__lookupSetter__'']"

section \<open>chemistry.js: parameters and dosage rules\<close>

record parameter =
  name :: string
  unit :: string
  idealMin :: real
  idealMax :: real
  levels :: "real list"

definition PARAMETERS_freeChlorine :: parameter where
  "PARAMETERS_freeChlorine =
     \<lparr>name = ''Free Chlorine'', unit = ''ppm'', idealMin = 3, idealMax = 5,
      levels = [0, 1, 2, 3, 5, 10]\<rparr>"

definition PARAMETERS_totalChlorine :: parameter where
  "PARAMETERS_totalChlorine =
     \<lparr>name = ''Total Chlorine'', unit = ''ppm'', idealMin = 3, idealMax = 5,
      levels = [0, 0.5, 1, 2, 5, 10]\<rparr>"

definition PARAMETERS_bromine :: parameter where
  "PARAMETERS_bromine =
     \<lparr>name = ''Total Bromine'', unit = ''ppm'', idealMin = 4, idealMax = 6,
      levels = [0, 1, 2, 4, 10, 20]\<rparr>"

definition PARAMETERS_pH :: parameter where
  "PARAMETERS_pH =
     \<lparr>name = ''pH'', unit = '''', idealMin = 7.2, idealMax = 7.8,
      levels = [6.4, 6.8, 7.2, 7.8, 8.4]\<rparr>"

definition PARAMETERS_totalAlkalinity :: parameter where
  "PARAMETERS_totalAlkalinity =
     \<lparr>name = ''Total Alkalinity'', unit = ''ppm'', idealMin = 80, idealMax = 120,
      levels = [0, 40, 80, 120, 180, 240]\<rparr>"

definition PARAMETERS_totalHardness :: parameter where
  "PARAMETERS_totalHardness =
     \<lparr>name = ''Calcium Hardness'', unit = ''ppm'', idealMin = 175, idealMax = 250,
      levels = [0, 100, 200, 400, 800]\<rparr>"

definition PARAMETERS_cyanuricAcid :: parameter where
  "PARAMETERS_cyanuricAcid =
     \<lparr>name = ''Cyanuric Acid'', unit = ''ppm'', idealMin = 30, idealMax = 50,
      levels = [0, 40, 70, 100, 150, 300]\<rparr>"

text \<open>The properties that the table \<open>PARAMETERS\<close> owns, by key.\<close>

definition PARAMETERS :: "string \<Rightarrow> parameter option" where
  "PARAMETERS = map_of
     [(''freeChlorine'', PARAMETERS_freeChlorine),
      (''totalChlorine'', PARAMETERS_totalChlorine),
      (''bromine'', PARAMETERS_bromine),
      (''pH'', PARAMETERS_pH),
      (''totalAlkalinity'', PARAMETERS_totalAlkalinity),
      (''totalHardness'', PARAMETERS_totalHardness),
      (''cyanuricAcid'', PARAMETERS_cyanuricAcid)]"

text \<open>
  A dosage rule of \<open>DOSAGES\<close>.  The source names the change that the quantity
  achieves \<open>ppmPer\<close> in five rules and \<open>phPer\<close> in the two rules for pH; the field
  \<open>changePer\<close> holds either.
\<close>

record dosage =
  chemicalName :: string
  per10kGal :: real
  dosageUnit :: string
  changePer :: real

definition DOSAGES_alkalinityUp :: dosage where
  "DOSAGES_alkalinityUp =
     \<lparr>chemicalName = ''Sodium Bicarbonate (Baking Soda)'', per10kGal = 1.5,
      dosageUnit = ''lbs'', changePer = 10\<rparr>"

definition DOSAGES_phUp :: dosage where
  "DOSAGES_phUp =
     \<lparr>chemicalName = ''Soda Ash (Sodium Carbonate)'', per10kGal = 6,
      dosageUnit = ''oz'', changePer = 0.2\<rparr>"

definition DOSAGES_phDown :: dosage where
  "DOSAGES_phDown =
     \<lparr>chemicalName = ''Sodium Bisulfate (pH Decreaser)'', per10kGal = 12,
      dosageUnit = ''oz'', changePer = 0.2\<rparr>"

definition DOSAGES_chlorineUp :: dosage where
  "DOSAGES_chlorineUp =
     \<lparr>chemicalName = ''Sodium Dichlor (56% Chlorine Granules)'', per10kGal = 2,
      dosageUnit = ''oz'', changePer = 1.5\<rparr>"

definition DOSAGES_bromineUp :: dosage where
  "DOSAGES_bromineUp =
     \<lparr>chemicalName = ''Sodium Bromide + MPS Shock'', per10kGal = 2,
      dosageUnit = ''oz'', changePer = 2\<rparr>"

definition DOSAGES_hardnessUp :: dosage where
  "DOSAGES_hardnessUp =
     \<lparr>chemicalName = ''Calcium Chloride'', per10kGal = 1.25,
      dosageUnit = ''lbs'', changePer = 10\<rparr>"

definition DOSAGES_cyaUp :: dosage where
  "DOSAGES_cyaUp =
     \<lparr>chemicalName = ''Cyanuric Acid (Stabilizer)'', per10kGal = 1,
      dosageUnit = ''lbs'', changePer = 12\<rparr>"

definition DOSAGES :: "string \<Rightarrow> dosage option" where
  "DOSAGES = map_of
     [(''alkalinityUp'', DOSAGES_alkalinityUp),
      (''phUp'', DOSAGES_phUp),
      (''phDown'', DOSAGES_phDown),
      (''chlorineUp'', DOSAGES_chlorineUp),
      (''bromineUp'', DOSAGES_bromineUp),
      (''hardnessUp'', DOSAGES_hardnessUp),
      (''cyaUp'', DOSAGES_cyaUp)]"

datatype status = StatusUnknown | StatusLow | StatusHigh | StatusOk

text \<open>
  \<open>getStatus\<close> reads \<open>PARAMETERS[paramKey]\<close>.  For an inherited key the value read
  has no \<open>idealMin\<close> and no \<open>idealMax\<close>, both comparisons with \<open>undefined\<close> are
  false, and the status is "ok".
\<close>

definition getStatus :: "string \<Rightarrow> real \<Rightarrow> status" where
  "getStatus paramKey v =
     (case PARAMETERS paramKey of
        None \<Rightarrow> if paramKey \<in> set Object_prototype_keys then StatusOk else StatusUnknown
      | Some param \<Rightarrow>
          if v < idealMin param then StatusLow
          else if v > idealMax param then StatusHigh
          else StatusOk)"

definition formatAmount :: "real \<Rightarrow> string \<Rightarrow> piece list" where
  "formatAmount v u =
     (if u = ''oz'' then
        (if v < 0.5 then [IntNum (Math_round (v * 6)), Lit '' teaspoons'']
         else if v < 1 then [Fixed 1 (v * 2), Lit '' tablespoons'']
         else if v < 4 then [Fixed 1 v, Lit '' oz'']
         else [Fixed 1 v, Lit '' oz ('', Fixed 2 (v / 16), Lit '' lbs)''])
      else if u = ''lbs'' then
        (if v < 0.03 then [IntNum (Math_round (v * 96)), Lit '' teaspoons'']
         else if v < 0.0625 then [Fixed 1 (v * 32), Lit '' tablespoons'']
         else if v < 0.25 then [Fixed 1 (v * 16), Lit '' oz'']
         else [Fixed 2 v, Lit '' lbs ('', Fixed 1 (v * 16), Lit '' oz)''])
      else [Fixed 2 v, Lit '' '', Lit u])"

section \<open>chemistry.js: calculateCorrections\<close>

text \<open>
  A correction as \<open>calculateCorrections\<close> pushes it.  The fields \<open>reason\<close>,
  \<open>calcBreakdown\<close> and \<open>notes\<close> of the source are explanatory text written from the
  same numbers; they feed no decision and are left out.  The field \<open>amt\<close> is not a
  field of the source's object: it records the local variable \<open>amt\<close>, the quantity
  that the branch passes to \<open>formatAmount\<close>, and is \<open>None\<close> in the branches that
  compute no such quantity.
\<close>

record correction =
  order :: nat
  parameter :: string
  action :: "piece list"
  chemical :: string
  amount :: "piece list"
  waitMinutes :: nat
  amt :: "real option"

type_synonym readings = "string \<Rightarrow> real option"

text \<open>Step 1: Total Alkalinity.\<close>

definition stepTotalAlkalinity :: "readings \<Rightarrow> real \<Rightarrow> correction list" where
  "stepTotalAlkalinity readings scale =
     (case readings ''totalAlkalinity'' of
        None \<Rightarrow> []
      | Some val \<Rightarrow>
          let p = PARAMETERS_totalAlkalinity;
              target = (idealMin p + idealMax p) / 2
          in if val < idealMin p then
               let ppmNeeded = target - val;
                   d = DOSAGES_alkalinityUp;
                   a = (ppmNeeded / changePer d) * per10kGal d * scale
               in [\<lparr>order = 1, parameter = ''Total Alkalinity'',
                     action = [Lit ''Raise from '', Num val, Lit '' to ~'',
                               IntNum (Math_round target), Lit '' ppm''],
                     chemical = chemicalName d,
                     amount = formatAmount a (dosageUnit d),
                     waitMinutes = 20, amt = Some a\<rparr>]
             else if val > idealMax p then
               let excess = val - idealMax p;
                   a = excess * 0.1 * scale
               in [\<lparr>order = 1, parameter = ''Total Alkalinity'',
                     action = [Lit ''Lower from '', Num val, Lit '' to ~'',
                               Num (idealMax p), Lit '' ppm''],
                     chemical = ''Sodium Bisulfate (pH Decreaser)'',
                     amount = formatAmount a ''oz'',
                     waitMinutes = 20, amt = Some a\<rparr>]
             else [])"

text \<open>Step 2: pH, with the fixed target 7.5.\<close>

definition stepPH :: "readings \<Rightarrow> real \<Rightarrow> correction list" where
  "stepPH readings scale =
     (case readings ''pH'' of
        None \<Rightarrow> []
      | Some val \<Rightarrow>
          let p = PARAMETERS_pH;
              target = 7.5
          in if val < idealMin p then
               let phNeeded = target - val;
                   d = DOSAGES_phUp;
                   a = (phNeeded / changePer d) * per10kGal d * scale
               in [\<lparr>order = 2, parameter = ''pH'',
                     action = [Lit ''Raise from '', Fixed 1 val, Lit '' to ~'', Num target],
                     chemical = chemicalName d,
                     amount = formatAmount a (dosageUnit d),
                     waitMinutes = 20, amt = Some a\<rparr>]
             else if val > idealMax p then
               let phNeeded = val - target;
                   d = DOSAGES_phDown;
                   a = (phNeeded / changePer d) * per10kGal d * scale
               in [\<lparr>order = 2, parameter = ''pH'',
                     action = [Lit ''Lower from '', Fixed 1 val, Lit '' to ~'', Num target],
                     chemical = chemicalName d,
                     amount = formatAmount a (dosageUnit d),
                     waitMinutes = 20, amt = Some a\<rparr>]
             else [])"

text \<open>Step 3: Calcium Hardness; a high reading is answered by dilution.\<close>

definition stepTotalHardness :: "readings \<Rightarrow> real \<Rightarrow> correction list" where
  "stepTotalHardness readings scale =
     (case readings ''totalHardness'' of
        None \<Rightarrow> []
      | Some val \<Rightarrow>
          let p = PARAMETERS_totalHardness;
              target = (idealMin p + idealMax p) / 2
          in if val < idealMin p then
               let ppmNeeded = target - val;
                   d = DOSAGES_hardnessUp;
                   a = (ppmNeeded / changePer d) * per10kGal d * scale
               in [\<lparr>order = 3, parameter = ''Calcium Hardness'',
                     action = [Lit ''Raise from '', Num val, Lit '' to ~'',
                               IntNum (Math_round target), Lit '' ppm''],
                     chemical = chemicalName d,
                     amount = formatAmount a (dosageUnit d),
                     waitMinutes = 20, amt = Some a\<rparr>]
             else if val > idealMax p then
               let pct = Math_round ((1 - idealMax p / val) * 100)
               in [\<lparr>order = 3, parameter = ''Calcium Hardness'',
                     action = [Lit ''Lower from '', Num val, Lit '' ppm (too high)''],
                     chemical = ''Partial Water Replacement'',
                     amount = [Lit ''Drain ~'', IntNum pct,
                               Lit ''% and refill with fresh water''],
                     waitMinutes = 60, amt = None\<rparr>]
             else [])"

text \<open>
  Step 4: the sanitizer.  Every sanitizer type other than \<open>bromine\<close> reads the key
  \<open>freeChlorine\<close> and doses by \<open>chlorineUp\<close>.  The two keys that \<open>sanKey\<close> and
  \<open>dKey\<close> can hold are keys of the two tables, so the lookups never miss; the model
  pushes nothing on a miss.
\<close>

definition stepSanitizer :: "readings \<Rightarrow> real \<Rightarrow> string \<Rightarrow> correction list" where
  "stepSanitizer readings scale sanitizerType =
     (let sanKey = (if sanitizerType = ''bromine'' then ''bromine'' else ''freeChlorine'')
      in case readings sanKey of
           None \<Rightarrow> []
         | Some val \<Rightarrow>
            (case PARAMETERS sanKey of
               None \<Rightarrow> []
             | Some p \<Rightarrow>
                 let target = (idealMin p + idealMax p) / 2
                 in if val < idealMin p then
                      let ppmNeeded = target - val;
                          dKey = (if sanitizerType = ''bromine'' then ''bromineUp''
                                  else ''chlorineUp'')
                      in (case DOSAGES dKey of
                            None \<Rightarrow> []
                          | Some d \<Rightarrow>
                              let a = (ppmNeeded / changePer d) * per10kGal d * scale
                              in [\<lparr>order = 4, parameter = name p,
                                    action = [Lit ''Raise from '', Num val, Lit '' to ~'',
                                              Num target, Lit '' ppm''],
                                    chemical = chemicalName d,
                                    amount = formatAmount a (dosageUnit d),
                                    waitMinutes = 15, amt = Some a\<rparr>])
                    else if val > idealMax p then
                      [\<lparr>order = 4, parameter = name p,
                        action = [Lit (name p), Lit '' is high at '', Num val, Lit '' ppm''],
                        chemical = ''Wait & Aerate'',
                        amount = [Lit ''Leave cover off, run jets''],
                        waitMinutes = 30, amt = None\<rparr>]
                    else []))"

text \<open>Step 5: Cyanuric Acid, only when the sanitizer type is \<open>chlorine\<close>.\<close>

definition stepCyanuricAcid :: "readings \<Rightarrow> real \<Rightarrow> string \<Rightarrow> correction list" where
  "stepCyanuricAcid readings scale sanitizerType =
     (if sanitizerType = ''chlorine'' then
        (case readings ''cyanuricAcid'' of
           None \<Rightarrow> []
         | Some val \<Rightarrow>
             let p = PARAMETERS_cyanuricAcid;
                 target = (idealMin p + idealMax p) / 2
             in if val < idealMin p then
                  let ppmNeeded = target - val;
                      d = DOSAGES_cyaUp;
                      a = (ppmNeeded / changePer d) * per10kGal d * scale
                  in [\<lparr>order = 5, parameter = ''Cyanuric Acid'',
                        action = [Lit ''Raise from '', Num val, Lit '' to ~'',
                                  IntNum (Math_round target), Lit '' ppm''],
                        chemical = chemicalName d,
                        amount = formatAmount a (dosageUnit d),
                        waitMinutes = 30, amt = Some a\<rparr>]
                else if val > idealMax p then
                  let pct = Math_round ((1 - idealMax p / val) * 100)
                  in [\<lparr>order = 5, parameter = ''Cyanuric Acid'',
                        action = [Lit ''CYA too high at '', Num val, Lit '' ppm''],
                        chemical = ''Partial Water Replacement'',
                        amount = [Lit ''Drain ~'', IntNum pct, Lit ''% and refill''],
                        waitMinutes = 60, amt = None\<rparr>]
                else [])
      else [])"

text \<open>
  The five steps push in turn onto one array, which is then sorted by \<open>order\<close>.
  \<open>Array.prototype.sort\<close> is stable, as is \<open>sort_key\<close>.
\<close>

definition pushed :: "readings \<Rightarrow> real \<Rightarrow> string \<Rightarrow> correction list" where
  "pushed readings scale sanitizerType =
     stepTotalAlkalinity readings scale @ stepPH readings scale
     @ stepTotalHardness readings scale @ stepSanitizer readings scale sanitizerType
     @ stepCyanuricAcid readings scale sanitizerType"

definition calculateCorrections :: "readings \<Rightarrow> real \<Rightarrow> string \<Rightarrow> correction list" where
  "calculateCorrections readings volumeGallons sanitizerType =
     (let scale = volumeGallons / 10000
      in sort_key order (pushed readings scale sanitizerType))"

section \<open>colorChart.js: the reference charts\<close>

record colorPoint =
  pvalue :: real
  ref_r :: real
  ref_g :: real
  ref_b :: real

record chart =
  chart_name :: string
  chart_key :: string
  colors :: "colorPoint list"

definition pt :: "real \<Rightarrow> real \<Rightarrow> real \<Rightarrow> real \<Rightarrow> colorPoint" where
  "pt v r g b = \<lparr>pvalue = v, ref_r = r, ref_g = g, ref_b = b\<rparr>"

definition COLOR_CHARTS_freeChlorine :: chart where
  "COLOR_CHARTS_freeChlorine =
     \<lparr>chart_name = ''Free Chlorine'', chart_key = ''freeChlorine'',
      colors =
        [pt 0 255 248 240,
         pt 1 255 210 210,
         pt 2 255 170 170,
         pt 3 245 130 145,
         pt 5 220 80 110,
         pt 10 190 40 80]\<rparr>"

definition COLOR_CHARTS_totalChlorine :: chart where
  "COLOR_CHARTS_totalChlorine =
     \<lparr>chart_name = ''Total Chlorine'', chart_key = ''totalChlorine'',
      colors =
        [pt 0 255 248 240,
         pt 0.5 255 225 220,
         pt 1 255 195 185,
         pt 2 250 150 135,
         pt 5 225 95 80,
         pt 10 195 55 40]\<rparr>"

definition COLOR_CHARTS_bromine :: chart where
  "COLOR_CHARTS_bromine =
     \<lparr>chart_name = ''Total Bromine'', chart_key = ''bromine'',
      colors =
        [pt 0 255 250 240,
         pt 1 255 225 210,
         pt 2 255 195 175,
         pt 4 245 145 125,
         pt 10 220 90 70,
         pt 20 185 50 35]\<rparr>"

definition COLOR_CHARTS_pH :: chart where
  "COLOR_CHARTS_pH =
     \<lparr>chart_name = ''pH'', chart_key = ''pH'',
      colors =
        [pt 6.4 235 200 65,
         pt 6.8 225 180 55,
         pt 7.2 215 150 55,
         pt 7.8 195 105 60,
         pt 8.4 165 65 85]\<rparr>"

definition COLOR_CHARTS_totalAlkalinity :: chart where
  "COLOR_CHARTS_totalAlkalinity =
     \<lparr>chart_name = ''Total Alkalinity'', chart_key = ''totalAlkalinity'',
      colors =
        [pt 0 225 210 55,
         pt 40 185 210 60,
         pt 80 110 190 75,
         pt 120 60 160 70,
         pt 180 45 135 100,
         pt 240 40 110 135]\<rparr>"

definition COLOR_CHARTS_totalHardness :: chart where
  "COLOR_CHARTS_totalHardness =
     \<lparr>chart_name = ''Calcium Hardness'', chart_key = ''totalHardness'',
      colors =
        [pt 0 55 170 135,
         pt 100 75 120 180,
         pt 200 110 90 170,
         pt 400 155 60 130,
         pt 800 200 45 80]\<rparr>"

definition COLOR_CHARTS_cyanuricAcid :: chart where
  "COLOR_CHARTS_cyanuricAcid =
     \<lparr>chart_name = ''Cyanuric Acid'', chart_key = ''cyanuricAcid'',
      colors =
        [pt 0 235 220 195,
         pt 40 200 180 140,
         pt 70 175 155 115,
         pt 100 145 125 90,
         pt 150 115 95 65,
         pt 300 80 65 45]\<rparr>"

text \<open>The properties that the object literal \<open>COLOR_CHARTS\<close> owns.\<close>

definition COLOR_CHARTS_own :: "string \<Rightarrow> chart option" where
  "COLOR_CHARTS_own = map_of
     [(''freeChlorine'', COLOR_CHARTS_freeChlorine),
      (''totalChlorine'', COLOR_CHARTS_totalChlorine),
      (''bromine'', COLOR_CHARTS_bromine),
      (''pH'', COLOR_CHARTS_pH),
      (''totalAlkalinity'', COLOR_CHARTS_totalAlkalinity),
      (''totalHardness'', COLOR_CHARTS_totalHardness),
      (''cyanuricAcid'', COLOR_CHARTS_cyanuricAcid)]"

text \<open>
  The source reads the chart as \<open>COLOR_CHARTS[chartKey]\<close>, which also finds the
  inherited properties: such a value is not falsy and has no property \<open>colors\<close>.
\<close>

datatype property = Undefined | OwnChart chart | Inherited

definition COLOR_CHARTS :: "string \<Rightarrow> property" where
  "COLOR_CHARTS chartKey =
     (case COLOR_CHARTS_own chartKey of
        Some c \<Rightarrow> OwnChart c
      | None \<Rightarrow> if chartKey \<in> set Object_prototype_keys then Inherited else Undefined)"

section \<open>colorChart.js: colour space conversion and matching\<close>

record lab =
  lab_l :: real
  lab_a :: real
  lab_b :: real

text \<open>The two local functions of \<open>rgbToLab\<close>.\<close>

definition linearize :: "real \<Rightarrow> real" where
  "linearize c = (if c > 0.04045 then ((c + 0.055) / 1.055) powr 2.4 else c / 12.92)"

definition f :: "real \<Rightarrow> real" where
  "f t = (if t > 0.008856 then root 3 t else (t * 7.787) + 16 / 116)"

definition rgbToLab :: "real \<Rightarrow> real \<Rightarrow> real \<Rightarrow> lab" where
  "rgbToLab r g b =
     (let rL = linearize r;
          gL = linearize g;
          bL = linearize b;
          x = rL * 0.4124564 + gL * 0.3575761 + bL * 0.1804375;
          y = rL * 0.2126729 + gL * 0.7151522 + bL * 0.0721750;
          z = rL * 0.0193339 + gL * 0.1191920 + bL * 0.9503041;
          xRef = 0.95047; yRef = 1.0; zRef = 1.08883;
          fx = f (x / xRef);
          fy = f (y / yRef);
          fz = f (z / zRef)
      in \<lparr>lab_l = 116 * fy - 16, lab_a = 500 * (fx - fy), lab_b = 200 * (fy - fz)\<rparr>)"

definition deltaE76 :: "lab \<Rightarrow> lab \<Rightarrow> real" where
  "deltaE76 lab1 lab2 =
     (let dl = lab_l lab1 - lab_l lab2;
          da = lab_a lab1 - lab_a lab2;
          db = lab_b lab1 - lab_b lab2
      in sqrt (dl * dl + da * da + db * db))"

text \<open>
  What a matcher does: it throws a \<open>TypeError\<close> (\<open>Inl\<close>), returns \<open>null\<close>
  (\<open>Inr None\<close>) or returns a result object.
\<close>

datatype error = TypeError

datatype confidence = High | Medium | Low

record match =
  mvalue :: real
  deltaE :: real

record nearest = match +
  refColor :: colorPoint

record interpolated = match +
  confidence :: confidence

text \<open>
  The loop of \<open>matchColor\<close> over \<open>chart.colors\<close>.  Its state is the pair of
  \<open>bestMatch\<close> (\<open>None\<close> for \<open>null\<close>) and \<open>bestDeltaE\<close> (\<open>None\<close> for \<open>Infinity\<close>).
\<close>

fun matchLoop ::
  "lab \<Rightarrow> colorPoint list \<Rightarrow> colorPoint option \<times> real option
     \<Rightarrow> colorPoint option \<times> real option" where
  "matchLoop sampledLab [] st = st"
| "matchLoop sampledLab (ref # refs) (bestMatch, bestDeltaE) =
     (let refLab = rgbToLab (ref_r ref / 255) (ref_g ref / 255) (ref_b ref / 255);
          dE = deltaE76 sampledLab refLab
      in if (case bestDeltaE of None \<Rightarrow> True | Some best \<Rightarrow> dE < best)
         then matchLoop sampledLab refs (Some ref, Some dE)
         else matchLoop sampledLab refs (bestMatch, bestDeltaE))"

definition matchColor ::
  "real \<Rightarrow> real \<Rightarrow> real \<Rightarrow> string \<Rightarrow> error + nearest option" where
  "matchColor sampledR sampledG sampledB chartKey =
     (case COLOR_CHARTS chartKey of
        Undefined \<Rightarrow> Inr None
      | Inherited \<Rightarrow> Inl TypeError
      | OwnChart chart \<Rightarrow>
          let sampledLab = rgbToLab (sampledR / 255) (sampledG / 255) (sampledB / 255)
          in (case matchLoop sampledLab (colors chart) (None, None) of
                (Some bestMatch, Some bestDeltaE) \<Rightarrow>
                  Inr (Some \<lparr>mvalue = pvalue bestMatch, deltaE = bestDeltaE,
                             refColor = bestMatch\<rparr>)
              | _ \<Rightarrow> Inl TypeError))"

text \<open>
  An element of \<open>matches\<close> in \<open>matchColorInterpolated\<close>.  The array is sorted by
  \<open>deltaE\<close> with the stable \<open>Array.prototype.sort\<close>; reading \<open>deltaE\<close> of a missing
  \<open>matches[0]\<close> or \<open>matches[1]\<close> throws.
\<close>

record candidate =
  cref :: colorPoint
  cdeltaE :: real

definition matchColorInterpolated ::
  "real \<Rightarrow> real \<Rightarrow> real \<Rightarrow> string \<Rightarrow> error + interpolated option" where
  "matchColorInterpolated sampledR sampledG sampledB chartKey =
     (case COLOR_CHARTS chartKey of
        Undefined \<Rightarrow> Inr None
      | Inherited \<Rightarrow> Inl TypeError
      | OwnChart chart \<Rightarrow>
          let sampledLab = rgbToLab (sampledR / 255) (sampledG / 255) (sampledB / 255);
              matches = sort_key cdeltaE
                (map (\<lambda>ref.
                        let refLab = rgbToLab (ref_r ref / 255) (ref_g ref / 255)
                                       (ref_b ref / 255)
                        in \<lparr>cref = ref, cdeltaE = deltaE76 sampledLab refLab\<rparr>)
                     (colors chart))
          in (case matches of
                [] \<Rightarrow> Inl TypeError
              | m1 # rest \<Rightarrow>
                  if cdeltaE m1 < 1 then
                    Inr (Some \<lparr>mvalue = pvalue (cref m1), deltaE = cdeltaE m1,
                               confidence = High\<rparr>)
                  else
                    (case rest of
                       [] \<Rightarrow> Inl TypeError
                     | m2 # _ \<Rightarrow>
                         let w1 = 1 / max (cdeltaE m1) 0.001;
                             w2 = 1 / max (cdeltaE m2) 0.001;
                             v = (pvalue (cref m1) * w1 + pvalue (cref m2) * w2) / (w1 + w2);
                             conf = (if cdeltaE m1 < 10 then High
                                     else if cdeltaE m1 < 25 then Medium else Low)
                         in Inr (Some \<lparr>mvalue = real_of_int (Math_round (v * 10)) / 10,
                                        deltaE = cdeltaE m1, confidence = conf\<rparr>))))"

section \<open>Notions of the specification\<close>

text \<open>
  The specification speaks of the target of a raise, of the dosage rule of a
  parameter, of the parameters that the plan treats for a sanitizer type, of the tier
  of a parameter and of a reading out of its ideal range.  These definitions follow its
  words; the theorems compare them with what \<open>calculateCorrections\<close> computes.
\<close>

definition raiseTarget :: "string \<Rightarrow> parameter \<Rightarrow> real" where
  "raiseTarget k p = (if k = ''pH'' then 7.5 else (idealMin p + idealMax p) / 2)"

definition raiseRule :: "string \<Rightarrow> dosage option" where
  "raiseRule = map_of
     [(''totalAlkalinity'', DOSAGES_alkalinityUp),
      (''pH'', DOSAGES_phUp),
      (''totalHardness'', DOSAGES_hardnessUp),
      (''freeChlorine'', DOSAGES_chlorineUp),
      (''bromine'', DOSAGES_bromineUp),
      (''cyanuricAcid'', DOSAGES_cyaUp)]"

definition treated :: "string \<Rightarrow> string list" where
  "treated sanitizerType =
     [''totalAlkalinity'', ''pH'', ''totalHardness'',
      if sanitizerType = ''bromine'' then ''bromine'' else ''freeChlorine'']
     @ (if sanitizerType = ''chlorine'' then [''cyanuricAcid''] else [])"

definition tier :: "string \<Rightarrow> nat" where
  "tier k = (if k = ''totalAlkalinity'' then 1 else if k = ''pH'' then 2
             else if k = ''totalHardness'' then 3
             else if k = ''cyanuricAcid'' then 5 else 4)"

definition outOfRange :: "readings \<Rightarrow> string \<Rightarrow> bool" where
  "outOfRange rd k =
     (case rd k of
        None \<Rightarrow> False
      | Some v \<Rightarrow> getStatus k v = StatusLow \<or> getStatus k v = StatusHigh)"

text \<open>The reading panel of the specification's scenario.\<close>

definition scenario :: readings where
  "scenario = map_of
     [(''totalAlkalinity'', 60), (''pH'', 8.0), (''totalHardness'', 200),
      (''freeChlorine'', 2), (''cyanuricAcid'', 20)]"

text \<open>
  For the colour matcher: the perceptual distance from a sampled colour to a
  calibration point, the distance to the nearest point of a chart, the step function
  of the confidence, and the rank of a confidence, greater for a worse one.
\<close>

definition distance :: "real \<Rightarrow> real \<Rightarrow> real \<Rightarrow> colorPoint \<Rightarrow> real" where
  "distance r g b p =
     deltaE76 (rgbToLab (r / 255) (g / 255) (b / 255))
       (rgbToLab (ref_r p / 255) (ref_g p / 255) (ref_b p / 255))"

definition nearestDistance :: "real \<Rightarrow> real \<Rightarrow> real \<Rightarrow> chart \<Rightarrow> real" where
  "nearestDistance r g b c = Min (distance r g b ` set (colors c))"

definition stepConfidence :: "real \<Rightarrow> confidence" where
  "stepConfidence d = (if d < 10 then High else if d < 25 then Medium else Low)"

fun confidenceRank :: "confidence \<Rightarrow> nat" where
  "confidenceRank High = 0"
| "confidenceRank Medium = 1"
| "confidenceRank Low = 2"

section \<open>The dosage plan: auxiliary facts\<close>

lemmas parameter_tables =
  PARAMETERS_freeChlorine_def PARAMETERS_totalChlorine_def
  PARAMETERS_bromine_def PARAMETERS_pH_def PARAMETERS_totalAlkalinity_def
  PARAMETERS_totalHardness_def PARAMETERS_cyanuricAcid_def

lemmas dosage_tables =
  DOSAGES_alkalinityUp_def DOSAGES_phUp_def DOSAGES_phDown_def
  DOSAGES_chlorineUp_def DOSAGES_bromineUp_def DOSAGES_hardnessUp_def DOSAGES_cyaUp_def

lemmas steps =
  stepTotalAlkalinity_def stepPH_def stepTotalHardness_def stepSanitizer_def
  stepCyanuricAcid_def

lemma PARAMETERS_keys:
  "PARAMETERS k = Some p \<Longrightarrow>
     k = ''freeChlorine'' \<and> p = PARAMETERS_freeChlorine \<or>
     k = ''totalChlorine'' \<and> p = PARAMETERS_totalChlorine \<or>
     k = ''bromine'' \<and> p = PARAMETERS_bromine \<or>
     k = ''pH'' \<and> p = PARAMETERS_pH \<or>
     k = ''totalAlkalinity'' \<and> p = PARAMETERS_totalAlkalinity \<or>
     k = ''totalHardness'' \<and> p = PARAMETERS_totalHardness \<or>
     k = ''cyanuricAcid'' \<and> p = PARAMETERS_cyanuricAcid"
  by (simp add: PARAMETERS_def split: if_splits)

lemma PARAMETERS_sanKey:
  "PARAMETERS ''bromine'' = Some PARAMETERS_bromine"
  "PARAMETERS ''freeChlorine'' = Some PARAMETERS_freeChlorine"
  by (simp_all add: PARAMETERS_def)

lemma DOSAGES_dKey:
  "DOSAGES ''bromineUp'' = Some DOSAGES_bromineUp"
  "DOSAGES ''chlorineUp'' = Some DOSAGES_chlorineUp"
  by (simp_all add: DOSAGES_def)

lemma raiseRule_keys:
  "raiseRule k = Some d \<Longrightarrow>
     k = ''totalAlkalinity'' \<and> d = DOSAGES_alkalinityUp \<or>
     k = ''pH'' \<and> d = DOSAGES_phUp \<or>
     k = ''totalHardness'' \<and> d = DOSAGES_hardnessUp \<or>
     k = ''freeChlorine'' \<and> d = DOSAGES_chlorineUp \<or>
     k = ''bromine'' \<and> d = DOSAGES_bromineUp \<or>
     k = ''cyanuricAcid'' \<and> d = DOSAGES_cyaUp"
  by (simp add: raiseRule_def split: if_splits)

text \<open>Every step pushes nothing or one correction, of its own tier.\<close>

lemma stepTotalAlkalinity_shape:
  "stepTotalAlkalinity rd s = [] \<or> (\<exists>c. stepTotalAlkalinity rd s = [c] \<and> order c = 1)"
  by (simp add: stepTotalAlkalinity_def Let_def split: option.splits)

lemma stepPH_shape:
  "stepPH rd s = [] \<or> (\<exists>c. stepPH rd s = [c] \<and> order c = 2)"
  by (simp add: stepPH_def Let_def split: option.splits)

lemma stepTotalHardness_shape:
  "stepTotalHardness rd s = [] \<or> (\<exists>c. stepTotalHardness rd s = [c] \<and> order c = 3)"
  by (simp add: stepTotalHardness_def Let_def split: option.splits)

lemma stepSanitizer_shape:
  "stepSanitizer rd s st = [] \<or> (\<exists>c. stepSanitizer rd s st = [c] \<and> order c = 4)"
  by (cases "st = ''bromine''") (simp_all add: stepSanitizer_def Let_def split: option.splits)

lemma stepCyanuricAcid_shape:
  "stepCyanuricAcid rd s st = [] \<or> (\<exists>c. stepCyanuricAcid rd s st = [c] \<and> order c = 5)"
  by (simp add: stepCyanuricAcid_def Let_def split: option.splits)

lemma stepTotalAlkalinity_order: "c \<in> set (stepTotalAlkalinity rd s) \<Longrightarrow> order c = 1"
  using stepTotalAlkalinity_shape [of rd s] by auto

lemma stepPH_order: "c \<in> set (stepPH rd s) \<Longrightarrow> order c = 2"
  using stepPH_shape [of rd s] by auto

lemma stepTotalHardness_order: "c \<in> set (stepTotalHardness rd s) \<Longrightarrow> order c = 3"
  using stepTotalHardness_shape [of rd s] by auto

lemma stepSanitizer_order: "c \<in> set (stepSanitizer rd s st) \<Longrightarrow> order c = 4"
  using stepSanitizer_shape [of rd s st] by auto

lemma stepCyanuricAcid_order: "c \<in> set (stepCyanuricAcid rd s st) \<Longrightarrow> order c = 5"
  using stepCyanuricAcid_shape [of rd s st] by auto

lemma sorted_pushed: "sorted (map order (pushed rd s st))"
  using stepTotalAlkalinity_shape [of rd s] stepPH_shape [of rd s]
    stepTotalHardness_shape [of rd s] stepSanitizer_shape [of rd s st]
    stepCyanuricAcid_shape [of rd s st]
  unfolding pushed_def by (elim disjE exE conjE) simp_all

lemma distinct_pushed: "distinct (map order (pushed rd s st))"
  using stepTotalAlkalinity_shape [of rd s] stepPH_shape [of rd s]
    stepTotalHardness_shape [of rd s] stepSanitizer_shape [of rd s st]
    stepCyanuricAcid_shape [of rd s st]
  unfolding pushed_def by (elim disjE exE conjE) simp_all

text \<open>The array is pushed in order already, so the final sort changes nothing.\<close>

lemma calculateCorrections_pushed:
  "calculateCorrections rd v st = pushed rd (v / 10000) st"
  by (simp add: calculateCorrections_def sort_key_id_if_sorted sorted_pushed)

lemma set_calculateCorrections:
  "set (calculateCorrections rd v st) =
     set (stepTotalAlkalinity rd (v / 10000)) \<union> set (stepPH rd (v / 10000))
     \<union> set (stepTotalHardness rd (v / 10000)) \<union> set (stepSanitizer rd (v / 10000) st)
     \<union> set (stepCyanuricAcid rd (v / 10000) st)"
  by (auto simp: calculateCorrections_pushed pushed_def)

text \<open>The display name that each step gives its correction.\<close>

lemma stepTotalAlkalinity_parameter:
  "c \<in> set (stepTotalAlkalinity rd s) \<Longrightarrow> parameter c = ''Total Alkalinity''"
  by (auto simp: stepTotalAlkalinity_def Let_def split: option.splits if_splits)

lemma stepPH_parameter: "c \<in> set (stepPH rd s) \<Longrightarrow> parameter c = ''pH''"
  by (auto simp: stepPH_def Let_def split: option.splits if_splits)

lemma stepTotalHardness_parameter:
  "c \<in> set (stepTotalHardness rd s) \<Longrightarrow> parameter c = ''Calcium Hardness''"
  by (auto simp: stepTotalHardness_def Let_def split: option.splits if_splits)

lemma stepSanitizer_parameter:
  "c \<in> set (stepSanitizer rd s st) \<Longrightarrow>
     parameter c = ''Total Bromine'' \<and> st = ''bromine'' \<or>
     parameter c = ''Free Chlorine'' \<and> st \<noteq> ''bromine''"
  by (cases "st = ''bromine''")
    (auto simp: stepSanitizer_def Let_def PARAMETERS_sanKey parameter_tables
       split: option.splits if_splits)

lemma stepCyanuricAcid_parameter:
  "c \<in> set (stepCyanuricAcid rd s st) \<Longrightarrow> parameter c = ''Cyanuric Acid'' \<and> st = ''chlorine''"
  by (cases "st = ''chlorine''")
    (auto simp: stepCyanuricAcid_def Let_def split: option.splits if_splits)

lemmas step_parameter =
  stepTotalAlkalinity_parameter stepPH_parameter
  stepTotalHardness_parameter stepSanitizer_parameter stepCyanuricAcid_parameter

text \<open>The plan of the scenario, step by step.\<close>

lemma scenario_pushed:
  "pushed scenario (400 / 10000) ''chlorine'' =
    [\<lparr>order = 1, parameter = ''Total Alkalinity'',
       action = [Lit ''Raise from '', Num 60, Lit '' to ~'', IntNum 100, Lit '' ppm''],
       chemical = ''Sodium Bicarbonate (Baking Soda)'',
       amount = [Fixed 1 (96 / 25), Lit '' oz''],
       waitMinutes = 20, amt = Some (6 / 25)\<rparr>,
     \<lparr>order = 2, parameter = ''pH'',
       action = [Lit ''Lower from '', Fixed 1 8, Lit '' to ~'', Num 7.5],
       chemical = ''Sodium Bisulfate (pH Decreaser)'',
       amount = [Fixed 1 (6 / 5), Lit '' oz''],
       waitMinutes = 20, amt = Some (6 / 5)\<rparr>,
     \<lparr>order = 4, parameter = ''Free Chlorine'',
       action = [Lit ''Raise from '', Num 2, Lit '' to ~'', Num 4, Lit '' ppm''],
       chemical = ''Sodium Dichlor (56% Chlorine Granules)'',
       amount = [IntNum 1, Lit '' teaspoons''],
       waitMinutes = 15, amt = Some (8 / 75)\<rparr>,
     \<lparr>order = 5, parameter = ''Cyanuric Acid'',
       action = [Lit ''Raise from '', Num 20, Lit '' to ~'', IntNum 40, Lit '' ppm''],
       chemical = ''Cyanuric Acid (Stabilizer)'',
       amount = [Fixed 1 (16 / 15), Lit '' oz''],
       waitMinutes = 30, amt = Some (1 / 15)\<rparr>]"
  by (simp add: pushed_def steps scenario_def Let_def PARAMETERS_sanKey DOSAGES_dKey
      parameter_tables dosage_tables formatAmount_def Math_round_def)

text \<open>Scaling the volume scales the quantity of every step, and changes nothing else.\<close>

lemma scale_TotalAlkalinity:
  "map (\<lambda>c. (order c, parameter c, amt c)) (stepTotalAlkalinity rd (a * s)) =
   map (\<lambda>c. (order c, parameter c, map_option (\<lambda>q. a * q) (amt c)))
     (stepTotalAlkalinity rd s)"
  by (simp add: stepTotalAlkalinity_def Let_def split: option.splits)

lemma scale_PH:
  "map (\<lambda>c. (order c, parameter c, amt c)) (stepPH rd (a * s)) =
   map (\<lambda>c. (order c, parameter c, map_option (\<lambda>q. a * q) (amt c))) (stepPH rd s)"
  by (simp add: stepPH_def Let_def split: option.splits)

lemma scale_TotalHardness:
  "map (\<lambda>c. (order c, parameter c, amt c)) (stepTotalHardness rd (a * s)) =
   map (\<lambda>c. (order c, parameter c, map_option (\<lambda>q. a * q) (amt c)))
     (stepTotalHardness rd s)"
  by (simp add: stepTotalHardness_def Let_def split: option.splits)

lemma scale_Sanitizer:
  "map (\<lambda>c. (order c, parameter c, amt c)) (stepSanitizer rd (a * s) st) =
   map (\<lambda>c. (order c, parameter c, map_option (\<lambda>q. a * q) (amt c)))
     (stepSanitizer rd s st)"
  by (cases "st = ''bromine''") (simp_all add: stepSanitizer_def Let_def split: option.splits)

lemma scale_CyanuricAcid:
  "map (\<lambda>c. (order c, parameter c, amt c)) (stepCyanuricAcid rd (a * s) st) =
   map (\<lambda>c. (order c, parameter c, map_option (\<lambda>q. a * q) (amt c)))
     (stepCyanuricAcid rd s st)"
  by (simp add: stepCyanuricAcid_def Let_def split: option.splits)

lemma scale_pushed:
  "map (\<lambda>c. (order c, parameter c, amt c)) (pushed rd (a * s) st) =
   map (\<lambda>c. (order c, parameter c, map_option (\<lambda>q. a * q) (amt c))) (pushed rd s st)"
  unfolding pushed_def map_append
  by (simp only: scale_TotalAlkalinity scale_PH scale_TotalHardness scale_Sanitizer
      scale_CyanuricAcid)

text \<open>The scenario at 10,000 gallons, where the scale is 1.\<close>

lemma scenario_pushed_10000:
  "map (\<lambda>c. (order c, parameter c, amt c)) (pushed scenario 1 ''chlorine'') =
    [(1, ''Total Alkalinity'', Some 6), (2, ''pH'', Some 30),
     (4, ''Free Chlorine'', Some (8 / 3)), (5, ''Cyanuric Acid'', Some (5 / 3))]"
  by (simp add: pushed_def steps scenario_def Let_def PARAMETERS_sanKey DOSAGES_dKey
      parameter_tables dosage_tables)

text \<open>A reading below the ideal range makes its step push the raise.\<close>

lemma raise_TotalAlkalinity:
  assumes "rd ''totalAlkalinity'' = Some val" "val < idealMin PARAMETERS_totalAlkalinity"
  shows "\<exists>c. stepTotalAlkalinity rd s = [c] \<and> order c = 1
     \<and> parameter c = ''Total Alkalinity'' \<and>
     amt c = Some ((raiseTarget ''totalAlkalinity'' PARAMETERS_totalAlkalinity - val)
        / changePer DOSAGES_alkalinityUp * per10kGal DOSAGES_alkalinityUp * s)"
  using assms by (simp add: stepTotalAlkalinity_def Let_def raiseTarget_def)

lemma raise_PH:
  assumes "rd ''pH'' = Some val" "val < idealMin PARAMETERS_pH"
  shows "\<exists>c. stepPH rd s = [c] \<and> order c = 2 \<and> parameter c = ''pH'' \<and>
     amt c = Some ((raiseTarget ''pH'' PARAMETERS_pH - val)
        / changePer DOSAGES_phUp * per10kGal DOSAGES_phUp * s)"
  using assms by (simp add: stepPH_def Let_def raiseTarget_def)

lemma raise_TotalHardness:
  assumes "rd ''totalHardness'' = Some val" "val < idealMin PARAMETERS_totalHardness"
  shows "\<exists>c. stepTotalHardness rd s = [c] \<and> order c = 3
     \<and> parameter c = ''Calcium Hardness'' \<and>
     amt c = Some ((raiseTarget ''totalHardness'' PARAMETERS_totalHardness - val)
        / changePer DOSAGES_hardnessUp * per10kGal DOSAGES_hardnessUp * s)"
  using assms by (simp add: stepTotalHardness_def Let_def raiseTarget_def)

lemma raise_FreeChlorine:
  assumes "rd ''freeChlorine'' = Some val" "val < idealMin PARAMETERS_freeChlorine"
    "st \<noteq> ''bromine''"
  shows "\<exists>c. stepSanitizer rd s st = [c] \<and> order c = 4 \<and> parameter c = ''Free Chlorine'' \<and>
     amt c = Some ((raiseTarget ''freeChlorine'' PARAMETERS_freeChlorine - val)
        / changePer DOSAGES_chlorineUp * per10kGal DOSAGES_chlorineUp * s)"
  using assms
  by (simp add: stepSanitizer_def Let_def raiseTarget_def PARAMETERS_sanKey DOSAGES_dKey)
    (simp add: PARAMETERS_freeChlorine_def)

lemma raise_Bromine:
  assumes "rd ''bromine'' = Some val" "val < idealMin PARAMETERS_bromine"
  shows "\<exists>c. stepSanitizer rd s ''bromine'' = [c] \<and> order c = 4
     \<and> parameter c = ''Total Bromine'' \<and>
     amt c = Some ((raiseTarget ''bromine'' PARAMETERS_bromine - val)
        / changePer DOSAGES_bromineUp * per10kGal DOSAGES_bromineUp * s)"
  using assms
  by (simp add: stepSanitizer_def Let_def raiseTarget_def PARAMETERS_sanKey DOSAGES_dKey)
    (simp add: PARAMETERS_bromine_def)

lemma raise_CyanuricAcid:
  assumes "rd ''cyanuricAcid'' = Some val" "val < idealMin PARAMETERS_cyanuricAcid"
  shows "\<exists>c. stepCyanuricAcid rd s ''chlorine'' = [c] \<and> order c = 5
     \<and> parameter c = ''Cyanuric Acid'' \<and>
     amt c = Some ((raiseTarget ''cyanuricAcid'' PARAMETERS_cyanuricAcid - val)
        / changePer DOSAGES_cyaUp * per10kGal DOSAGES_cyaUp * s)"
  using assms by (simp add: stepCyanuricAcid_def Let_def raiseTarget_def)

text \<open>The sanitizer step tells \<open>bromine\<close> from everything else, and nothing more.\<close>

lemma stepSanitizer_not_bromine:
  "st \<noteq> ''bromine'' \<Longrightarrow> stepSanitizer rd s st = stepSanitizer rd s ''chlorine''"
  by (simp add: stepSanitizer_def)

lemma stepCyanuricAcid_not_chlorine:
  "st \<noteq> ''chlorine'' \<Longrightarrow> stepCyanuricAcid rd s st = []"
  by (simp add: stepCyanuricAcid_def)

lemma filter_tier:
  assumes "xs = [] \<or> (\<exists>c. xs = [c] \<and> order c = i)"
  shows "filter (\<lambda>c. order c = j) xs = (if i = j then xs else [])"
    and "filter (\<lambda>c. order c \<noteq> j) xs = (if i = j then [] else xs)"
  using assms by auto

text \<open>A parameter that the plan does not treat for the sanitizer type has no correction.\<close>

lemma untreated_no_correction:
  assumes "PARAMETERS k = Some p" and "k \<notin> set (treated st)"
  shows "\<forall>c \<in> set (calculateCorrections rd v st). parameter c \<noteq> name p"
proof
  fix c assume "c \<in> set (calculateCorrections rd v st)"
  then have c: "c \<in> set (stepTotalAlkalinity rd (v / 10000)) \<or> c \<in> set (stepPH rd (v / 10000))
     \<or> c \<in> set (stepTotalHardness rd (v / 10000)) \<or> c \<in> set (stepSanitizer rd (v / 10000) st)
     \<or> c \<in> set (stepCyanuricAcid rd (v / 10000) st)"
    by (simp add: set_calculateCorrections)
  from PARAMETERS_keys [OF assms(1)] assms(2) c show "parameter c \<noteq> name p"
    by (elim disjE conjE)
      (auto simp: parameter_tables treated_def split: if_splits dest!: step_parameter)
qed

section \<open>The dosage plan: properties\<close>

text \<open>
  C2 (volume linearity).  For every reading panel, every sanitizer type, every volume
  \<open>v\<close> and every factor \<open>a\<close> (2 for the doubling), the plan at volume \<open>a * v\<close> has
  the same corrections, tier by tier, as the plan at volume \<open>v\<close>, and every quantity
  computed before unit-formatting (the local \<open>amt\<close>) is \<open>a\<close> times the quantity at
  volume \<open>v\<close>.  Every such quantity is the quantity of the plan at 10,000 gallons
  multiplied by \<open>v / 10000\<close>.  The corrections that compute no quantity (dilution,
  aeration) have none at any volume.  The quantities are not trivially zero or absent:
  the scenario's plan at 10,000 gallons has 6 lbs, 30 oz, 8/3 oz and 5/3 lbs.
\<close>

theorem volume_linearity:
  "map (\<lambda>c. (order c, parameter c, amt c)) (calculateCorrections rd (a * v) st) =
     map (\<lambda>c. (order c, parameter c, map_option (\<lambda>q. a * q) (amt c)))
       (calculateCorrections rd v st) \<and>
   map (\<lambda>c. (order c, parameter c, amt c)) (calculateCorrections rd v st) =
     map (\<lambda>c. (order c, parameter c, map_option (\<lambda>q. q * (v / 10000)) (amt c)))
       (calculateCorrections rd 10000 st) \<and>
   map (\<lambda>c. (order c, parameter c, amt c)) (calculateCorrections scenario 10000 ''chlorine'') =
     [(1, ''Total Alkalinity'', Some 6), (2, ''pH'', Some 30),
      (4, ''Free Chlorine'', Some (8 / 3)), (5, ''Cyanuric Acid'', Some (5 / 3))]"
proof (intro conjI)
  have "a * v / 10000 = a * (v / 10000)" by simp
  then show "map (\<lambda>c. (order c, parameter c, amt c)) (calculateCorrections rd (a * v) st) =
     map (\<lambda>c. (order c, parameter c, map_option (\<lambda>q. a * q) (amt c)))
       (calculateCorrections rd v st)"
    unfolding calculateCorrections_pushed by (simp only: scale_pushed)
  have "pushed rd (v / 10000) st = pushed rd ((v / 10000) * 1) st" by simp
  also have "map (\<lambda>c. (order c, parameter c, amt c)) \<dots> =
      map (\<lambda>c. (order c, parameter c, map_option (\<lambda>q. (v / 10000) * q) (amt c)))
        (pushed rd 1 st)"
    by (rule scale_pushed)
  finally show "map (\<lambda>c. (order c, parameter c, amt c)) (calculateCorrections rd v st) =
     map (\<lambda>c. (order c, parameter c, map_option (\<lambda>q. q * (v / 10000)) (amt c)))
       (calculateCorrections rd 10000 st)"
    unfolding calculateCorrections_pushed by (simp add: mult.commute)
  show "map (\<lambda>c. (order c, parameter c, amt c))
      (calculateCorrections scenario 10000 ''chlorine'') =
     [(1, ''Total Alkalinity'', Some 6), (2, ''pH'', Some 30),
      (4, ''Free Chlorine'', Some (8 / 3)), (5, ''Cyanuric Acid'', Some (5 / 3))]"
    unfolding calculateCorrections_pushed using scenario_pushed_10000 by simp
qed

theorem volume_linearity_witness:
  "map (\<lambda>c. (order c, parameter c, amt c)) (calculateCorrections scenario 400 ''chlorine'') =
     [(1, ''Total Alkalinity'', Some (6 / 25)), (2, ''pH'', Some (6 / 5)),
      (4, ''Free Chlorine'', Some (8 / 75)), (5, ''Cyanuric Acid'', Some (1 / 15))] \<and>
   map (\<lambda>c. (order c, parameter c, amt c))
       (calculateCorrections scenario (2 * 400) ''chlorine'') =
     [(1, ''Total Alkalinity'', Some (12 / 25)), (2, ''pH'', Some (12 / 5)),
      (4, ''Free Chlorine'', Some (16 / 75)), (5, ''Cyanuric Acid'', Some (2 / 15))]"
proof -
  have p: "calculateCorrections scenario 400 ''chlorine'' = pushed scenario (400 / 10000) ''chlorine''"
    by (rule calculateCorrections_pushed)
  from volume_linearity [of scenario 2 400 "''chlorine''"]
  have "map (\<lambda>c. (order c, parameter c, amt c))
       (calculateCorrections scenario (2 * 400) ''chlorine'') =
     map (\<lambda>c. (order c, parameter c, map_option (\<lambda>q. 2 * q) (amt c)))
       (calculateCorrections scenario 400 ''chlorine'')"
    by (rule conjunct1)
  then show ?thesis unfolding p scenario_pushed by simp
qed

text \<open>
  C3 (raise amount).  Let \<open>k\<close> be a parameter with a dosage rule \<open>d\<close> for raising
  it, present in the panel with a reading \<open>val\<close> strictly below \<open>idealMin\<close>.  Then
  every correction of the plan for that parameter carries the quantity
  \<open>(target - val) / changePer d * per10kGal d * (volume / 10000)\<close>, where the target
  is 7.5 for pH and the midpoint of the ideal range otherwise; and when \<open>k\<close> is one of
  the parameters of the fixed treatment order for the sanitizer type (total alkalinity,
  pH, calcium hardness, bromine for the type \<open>bromine\<close> and free chlorine for every
  other type, cyanuric acid for chlorine systems only), the plan has such a correction,
  in the tier of \<open>k\<close>.
\<close>

theorem raise_amount:
  assumes "PARAMETERS k = Some p" and "raiseRule k = Some d" and "rd k = Some val"
    and "val < idealMin p"
  shows
    "(\<forall>c \<in> set (calculateCorrections rd v st). parameter c = name p \<longrightarrow>
        amt c = Some ((raiseTarget k p - val) / changePer d * per10kGal d * (v / 10000))) \<and>
     (k \<in> set (treated st) \<longrightarrow>
        (\<exists>c \<in> set (calculateCorrections rd v st). parameter c = name p \<and> order c = tier k))"
proof -
  let ?s = "v / 10000"
  let ?P = "\<lambda>c. parameter c = name p \<longrightarrow>
        amt c = Some ((raiseTarget k p - val) / changePer d * per10kGal d * ?s)"
  note mem = set_calculateCorrections [of rd v st]
  from raiseRule_keys [OF assms(2)] show ?thesis
  proof (elim disjE conjE)
    assume k: "k = ''totalAlkalinity''" and d: "d = DOSAGES_alkalinityUp"
    with assms(1) have p: "p = PARAMETERS_totalAlkalinity" by (simp add: PARAMETERS_def)
    from raise_TotalAlkalinity [of rd val ?s] assms k p obtain c where
      c: "stepTotalAlkalinity rd ?s = [c]" "order c = 1" "parameter c = ''Total Alkalinity''"
      "amt c = Some ((raiseTarget k p - val) / changePer d * per10kGal d * ?s)"
      using d by auto
    have "\<forall>c \<in> set (calculateCorrections rd v st). ?P c"
      unfolding mem using c p
      by (auto simp: parameter_tables dest!: stepPH_parameter stepTotalHardness_parameter
          stepSanitizer_parameter stepCyanuricAcid_parameter)
    moreover have "\<exists>c \<in> set (calculateCorrections rd v st).
        parameter c = name p \<and> order c = tier k"
      unfolding mem using c p k by (auto simp: parameter_tables tier_def)
    ultimately show ?thesis by blast
  next
    assume k: "k = ''pH''" and d: "d = DOSAGES_phUp"
    with assms(1) have p: "p = PARAMETERS_pH" by (simp add: PARAMETERS_def)
    from raise_PH [of rd val ?s] assms k p obtain c where
      c: "stepPH rd ?s = [c]" "order c = 2" "parameter c = ''pH''"
      "amt c = Some ((raiseTarget k p - val) / changePer d * per10kGal d * ?s)"
      using d by auto
    have "\<forall>c \<in> set (calculateCorrections rd v st). ?P c"
      unfolding mem using c p
      by (auto simp: parameter_tables dest!: stepTotalAlkalinity_parameter
          stepTotalHardness_parameter stepSanitizer_parameter stepCyanuricAcid_parameter)
    moreover have "\<exists>c \<in> set (calculateCorrections rd v st).
        parameter c = name p \<and> order c = tier k"
      unfolding mem using c p k by (auto simp: parameter_tables tier_def)
    ultimately show ?thesis by blast
  next
    assume k: "k = ''totalHardness''" and d: "d = DOSAGES_hardnessUp"
    with assms(1) have p: "p = PARAMETERS_totalHardness" by (simp add: PARAMETERS_def)
    from raise_TotalHardness [of rd val ?s] assms k p obtain c where
      c: "stepTotalHardness rd ?s = [c]" "order c = 3" "parameter c = ''Calcium Hardness''"
      "amt c = Some ((raiseTarget k p - val) / changePer d * per10kGal d * ?s)"
      using d by auto
    have "\<forall>c \<in> set (calculateCorrections rd v st). ?P c"
      unfolding mem using c p
      by (auto simp: parameter_tables dest!: stepTotalAlkalinity_parameter stepPH_parameter
          stepSanitizer_parameter stepCyanuricAcid_parameter)
    moreover have "\<exists>c \<in> set (calculateCorrections rd v st).
        parameter c = name p \<and> order c = tier k"
      unfolding mem using c p k by (auto simp: parameter_tables tier_def)
    ultimately show ?thesis by blast
  next
    assume k: "k = ''freeChlorine''" and d: "d = DOSAGES_chlorineUp"
    with assms(1) have p: "p = PARAMETERS_freeChlorine" by (simp add: PARAMETERS_def)
    have all: "\<forall>c \<in> set (calculateCorrections rd v st). ?P c"
    proof (cases "st = ''bromine''")
      case True
      then show ?thesis unfolding mem using p
        by (auto simp: parameter_tables dest!: step_parameter)
    next
      case False
      from raise_FreeChlorine [of rd val st ?s] assms k p False obtain c where
        c: "stepSanitizer rd ?s st = [c]" "order c = 4" "parameter c = ''Free Chlorine''"
        "amt c = Some ((raiseTarget k p - val) / changePer d * per10kGal d * ?s)"
        using d by auto
      show ?thesis unfolding mem using c p
        by (auto simp: parameter_tables dest!: stepTotalAlkalinity_parameter stepPH_parameter
          stepTotalHardness_parameter stepCyanuricAcid_parameter)
    qed
    have "\<exists>c \<in> set (calculateCorrections rd v st). parameter c = name p \<and> order c = tier k"
      if "k \<in> set (treated st)"
    proof -
      from that k have False: "st \<noteq> ''bromine''" by (auto simp: treated_def split: if_splits)
      from raise_FreeChlorine [of rd val st ?s] assms k p False obtain c where
        c: "stepSanitizer rd ?s st = [c]" "order c = 4" "parameter c = ''Free Chlorine''"
        by auto
      show ?thesis unfolding mem using c p k by (auto simp: parameter_tables tier_def)
    qed
    with all show ?thesis by blast
  next
    assume k: "k = ''bromine''" and d: "d = DOSAGES_bromineUp"
    with assms(1) have p: "p = PARAMETERS_bromine" by (simp add: PARAMETERS_def)
    have all: "\<forall>c \<in> set (calculateCorrections rd v st). ?P c"
    proof (cases "st = ''bromine''")
      case False
      then show ?thesis unfolding mem using p
        by (auto simp: parameter_tables dest!: step_parameter)
    next
      case True
      from raise_Bromine [of rd val ?s] assms k p True obtain c where
        c: "stepSanitizer rd ?s st = [c]" "order c = 4" "parameter c = ''Total Bromine''"
        "amt c = Some ((raiseTarget k p - val) / changePer d * per10kGal d * ?s)"
        using d by auto
      show ?thesis unfolding mem using c p
        by (auto simp: parameter_tables dest!: stepTotalAlkalinity_parameter stepPH_parameter
          stepTotalHardness_parameter stepCyanuricAcid_parameter)
    qed
    have "\<exists>c \<in> set (calculateCorrections rd v st). parameter c = name p \<and> order c = tier k"
      if "k \<in> set (treated st)"
    proof -
      from that k have True: "st = ''bromine''" by (auto simp: treated_def split: if_splits)
      from raise_Bromine [of rd val ?s] assms k p True obtain c where
        c: "stepSanitizer rd ?s st = [c]" "order c = 4" "parameter c = ''Total Bromine''"
        by auto
      show ?thesis unfolding mem using c p k by (auto simp: parameter_tables tier_def)
    qed
    with all show ?thesis by blast
  next
    assume k: "k = ''cyanuricAcid''" and d: "d = DOSAGES_cyaUp"
    with assms(1) have p: "p = PARAMETERS_cyanuricAcid" by (simp add: PARAMETERS_def)
    have all: "\<forall>c \<in> set (calculateCorrections rd v st). ?P c"
    proof (cases "st = ''chlorine''")
      case False
      then show ?thesis unfolding mem using p
        by (auto simp: parameter_tables dest!: step_parameter)
    next
      case True
      from raise_CyanuricAcid [of rd val ?s] assms k p True obtain c where
        c: "stepCyanuricAcid rd ?s st = [c]" "order c = 5" "parameter c = ''Cyanuric Acid''"
        "amt c = Some ((raiseTarget k p - val) / changePer d * per10kGal d * ?s)"
        using d by auto
      show ?thesis unfolding mem using c p
        by (auto simp: parameter_tables dest!: stepTotalAlkalinity_parameter stepPH_parameter
          stepTotalHardness_parameter stepSanitizer_parameter)
    qed
    have "\<exists>c \<in> set (calculateCorrections rd v st). parameter c = name p \<and> order c = tier k"
      if "k \<in> set (treated st)"
    proof -
      from that k have True: "st = ''chlorine''" by (auto simp: treated_def split: if_splits)
      from raise_CyanuricAcid [of rd val ?s] assms k p True obtain c where
        c: "stepCyanuricAcid rd ?s st = [c]" "order c = 5" "parameter c = ''Cyanuric Acid''"
        by auto
      show ?thesis unfolding mem using c p k by (auto simp: parameter_tables tier_def)
    qed
    with all show ?thesis by blast
  qed
qed

theorem raise_amount_witness:
  "PARAMETERS ''pH'' = Some PARAMETERS_pH \<and> raiseRule ''pH'' = Some DOSAGES_phUp \<and>
   (scenario(''pH'' \<mapsto> 6.9)) ''pH'' = Some 6.9 \<and> 6.9 < idealMin PARAMETERS_pH \<and>
   ''pH'' \<in> set (treated ''chlorine'') \<and>
   (\<exists>c \<in> set (calculateCorrections (scenario(''pH'' \<mapsto> 6.9)) 400 ''chlorine'').
      parameter c = ''pH'' \<and> order c = 2 \<and> amt c = Some (18 / 25))"
proof -
  have h1: "PARAMETERS ''pH'' = Some PARAMETERS_pH" by (simp add: PARAMETERS_def)
  have h2: "raiseRule ''pH'' = Some DOSAGES_phUp" by (simp add: raiseRule_def)
  have h3: "(scenario(''pH'' \<mapsto> 6.9)) ''pH'' = Some 6.9" by simp
  have h4: "6.9 < idealMin PARAMETERS_pH" by (simp add: PARAMETERS_pH_def)
  have h5: "''pH'' \<in> set (treated ''chlorine'')" by (simp add: treated_def)
  have n: "name PARAMETERS_pH = ''pH''" "tier ''pH'' = 2"
    "(raiseTarget ''pH'' PARAMETERS_pH - 6.9) / changePer DOSAGES_phUp
        * per10kGal DOSAGES_phUp * (400 / 10000) = 18 / 25"
    by (simp_all add: PARAMETERS_pH_def tier_def raiseTarget_def DOSAGES_phUp_def)
  from raise_amount [where rd = "scenario(''pH'' \<mapsto> 6.9)" and v = 400
      and st = "''chlorine''", OF h1 h2 h3 h4] h5
  have "\<exists>c \<in> set (calculateCorrections (scenario(''pH'' \<mapsto> 6.9)) 400 ''chlorine'').
      parameter c = ''pH'' \<and> order c = 2 \<and> amt c = Some (18 / 25)"
    unfolding n by blast
  with h1 h2 h3 h4 h5 show ?thesis by blast
qed

text \<open>
  C6 (treatment order).  The order fields of every plan are ascending and pairwise
  distinct, so that a tier has at most one correction; and when total alkalinity, pH,
  calcium hardness, free chlorine and cyanuric acid are all present and out of their
  ideal ranges and the sanitizer type is chlorine, the order fields of the plan are
  exactly 1, 2, 3, 4, 5 in that sequence.
\<close>

theorem treatment_order:
  "sorted (map order (calculateCorrections rd v st)) \<and>
   distinct (map order (calculateCorrections rd v st)) \<and>
   ((\<forall>k \<in> set [''totalAlkalinity'', ''pH'', ''totalHardness'', ''freeChlorine'',
                 ''cyanuricAcid'']. outOfRange rd k) \<longrightarrow>
    map order (calculateCorrections rd v ''chlorine'') = [1, 2, 3, 4, 5])"
proof (intro conjI impI)
  show "sorted (map order (calculateCorrections rd v st))"
    by (simp only: calculateCorrections_pushed sorted_pushed)
  show "distinct (map order (calculateCorrections rd v st))"
    by (simp only: calculateCorrections_pushed distinct_pushed)
next
  assume a: "\<forall>k \<in> set [''totalAlkalinity'', ''pH'', ''totalHardness'', ''freeChlorine'',
                 ''cyanuricAcid'']. outOfRange rd k"
  from a have 1: "map order (stepTotalAlkalinity rd (v / 10000)) = [1]"
    by (auto simp: outOfRange_def getStatus_def PARAMETERS_def stepTotalAlkalinity_def Let_def
          split: option.splits if_splits)
  from a have 2: "map order (stepPH rd (v / 10000)) = [2]"
    by (auto simp: outOfRange_def getStatus_def PARAMETERS_def stepPH_def Let_def
          split: option.splits if_splits)
  from a have 3: "map order (stepTotalHardness rd (v / 10000)) = [3]"
    by (auto simp: outOfRange_def getStatus_def PARAMETERS_def stepTotalHardness_def Let_def
          split: option.splits if_splits)
  from a have 4: "map order (stepSanitizer rd (v / 10000) ''chlorine'') = [4]"
    by (auto simp: outOfRange_def getStatus_def PARAMETERS_def DOSAGES_def stepSanitizer_def
          Let_def split: option.splits if_splits)
  from a have 5: "map order (stepCyanuricAcid rd (v / 10000) ''chlorine'') = [5]"
    by (auto simp: outOfRange_def getStatus_def PARAMETERS_def stepCyanuricAcid_def Let_def
          split: option.splits if_splits)
  show "map order (calculateCorrections rd v ''chlorine'') = [1, 2, 3, 4, 5]"
    unfolding calculateCorrections_pushed pushed_def map_append 1 2 3 4 5 by simp
qed

theorem treatment_order_witness:
  "outOfRange (scenario(''totalHardness'' \<mapsto> 400)) ''totalAlkalinity'' \<and>
   outOfRange (scenario(''totalHardness'' \<mapsto> 400)) ''pH'' \<and>
   outOfRange (scenario(''totalHardness'' \<mapsto> 400)) ''totalHardness'' \<and>
   outOfRange (scenario(''totalHardness'' \<mapsto> 400)) ''freeChlorine'' \<and>
   outOfRange (scenario(''totalHardness'' \<mapsto> 400)) ''cyanuricAcid'' \<and>
   map order (calculateCorrections (scenario(''totalHardness'' \<mapsto> 400)) 400 ''chlorine'')
     = [1, 2, 3, 4, 5]"
proof -
  have h: "outOfRange (scenario(''totalHardness'' \<mapsto> 400)) ''totalAlkalinity''"
    "outOfRange (scenario(''totalHardness'' \<mapsto> 400)) ''pH''"
    "outOfRange (scenario(''totalHardness'' \<mapsto> 400)) ''totalHardness''"
    "outOfRange (scenario(''totalHardness'' \<mapsto> 400)) ''freeChlorine''"
    "outOfRange (scenario(''totalHardness'' \<mapsto> 400)) ''cyanuricAcid''"
    by (simp_all add: outOfRange_def scenario_def getStatus_def PARAMETERS_def
        parameter_tables)
  with treatment_order [of "scenario(''totalHardness'' \<mapsto> 400)" 400 "''chlorine''"]
  show ?thesis by simp
qed

text \<open>
  C7 (no correction when in range).  A reading of a parameter that lies between
  \<open>idealMin\<close> and \<open>idealMax\<close>, the two bounds included, has the status "ok", and the
  plan has no correction for that parameter, whatever the volume and the sanitizer
  type.
\<close>

theorem in_range_no_correction:
  assumes "PARAMETERS k = Some p" and "rd k = Some val"
    and "idealMin p \<le> val" and "val \<le> idealMax p"
  shows "getStatus k val = StatusOk \<and>
    (\<forall>c \<in> set (calculateCorrections rd v st). parameter c \<noteq> name p)"
proof
  show "getStatus k val = StatusOk"
    using assms by (simp add: getStatus_def)
  have ta: "k = ''totalAlkalinity'' \<Longrightarrow> stepTotalAlkalinity rd (v / 10000) = []"
    using assms by (simp add: stepTotalAlkalinity_def Let_def PARAMETERS_def)
  have ph: "k = ''pH'' \<Longrightarrow> stepPH rd (v / 10000) = []"
    using assms by (simp add: stepPH_def Let_def PARAMETERS_def)
  have th: "k = ''totalHardness'' \<Longrightarrow> stepTotalHardness rd (v / 10000) = []"
    using assms by (simp add: stepTotalHardness_def Let_def PARAMETERS_def)
  have cya: "k = ''cyanuricAcid'' \<Longrightarrow> stepCyanuricAcid rd (v / 10000) st = []"
    using assms by (simp add: stepCyanuricAcid_def Let_def PARAMETERS_def)
  have br: "k = ''bromine'' \<Longrightarrow> st = ''bromine'' \<Longrightarrow> stepSanitizer rd (v / 10000) st = []"
    using assms by (simp add: stepSanitizer_def Let_def)
  have fc: "k = ''freeChlorine'' \<Longrightarrow> st \<noteq> ''bromine'' \<Longrightarrow> stepSanitizer rd (v / 10000) st = []"
    using assms by (simp add: stepSanitizer_def Let_def)
  show "\<forall>c \<in> set (calculateCorrections rd v st). parameter c \<noteq> name p"
  proof
    fix c assume "c \<in> set (calculateCorrections rd v st)"
    then have c: "c \<in> set (stepTotalAlkalinity rd (v / 10000)) \<or> c \<in> set (stepPH rd (v / 10000))
       \<or> c \<in> set (stepTotalHardness rd (v / 10000)) \<or> c \<in> set (stepSanitizer rd (v / 10000) st)
       \<or> c \<in> set (stepCyanuricAcid rd (v / 10000) st)"
      by (simp add: set_calculateCorrections)
    from PARAMETERS_keys [OF assms(1)] show "parameter c \<noteq> name p"
    proof (elim disjE conjE)
      assume "k = ''freeChlorine''" "p = PARAMETERS_freeChlorine"
      with c fc show ?thesis
        by (cases "st = ''bromine''") (auto simp: parameter_tables dest!: step_parameter)
    next
      assume "k = ''totalChlorine''" "p = PARAMETERS_totalChlorine"
      with c show ?thesis
        by (auto simp: parameter_tables dest!: step_parameter)
    next
      assume "k = ''bromine''" "p = PARAMETERS_bromine"
      with c br show ?thesis
        by (cases "st = ''bromine''") (auto simp: parameter_tables dest!: step_parameter)
    next
      assume "k = ''pH''" "p = PARAMETERS_pH"
      with c ph show ?thesis
        by (auto simp: parameter_tables dest!: step_parameter)
    next
      assume "k = ''totalAlkalinity''" "p = PARAMETERS_totalAlkalinity"
      with c ta show ?thesis
        by (auto simp: parameter_tables dest!: step_parameter)
    next
      assume "k = ''totalHardness''" "p = PARAMETERS_totalHardness"
      with c th show ?thesis
        by (auto simp: parameter_tables dest!: step_parameter)
    next
      assume "k = ''cyanuricAcid''" "p = PARAMETERS_cyanuricAcid"
      with c cya show ?thesis
        by (auto simp: parameter_tables dest!: step_parameter)
    qed
  qed
qed

theorem in_range_no_correction_witness:
  "PARAMETERS ''pH'' = Some PARAMETERS_pH \<and> (scenario(''pH'' \<mapsto> 7.8)) ''pH'' = Some 7.8 \<and>
   idealMin PARAMETERS_pH \<le> 7.8 \<and> 7.8 \<le> idealMax PARAMETERS_pH \<and>
   getStatus ''pH'' 7.8 = StatusOk \<and>
   calculateCorrections (scenario(''pH'' \<mapsto> 7.8)) 400 ''chlorine'' \<noteq> [] \<and>
   ''pH'' \<notin> set (map parameter
      (calculateCorrections (scenario(''pH'' \<mapsto> 7.8)) 400 ''chlorine''))"
proof -
  have h1: "PARAMETERS ''pH'' = Some PARAMETERS_pH" by (simp add: PARAMETERS_def)
  have h2: "(scenario(''pH'' \<mapsto> 7.8)) ''pH'' = Some 7.8" by simp
  have h3: "idealMin PARAMETERS_pH \<le> 7.8" by (simp add: PARAMETERS_pH_def)
  have h4: "7.8 \<le> idealMax PARAMETERS_pH" by (simp add: PARAMETERS_pH_def)
  have n: "name PARAMETERS_pH = ''pH''" by (simp add: PARAMETERS_pH_def)
  have ne: "calculateCorrections (scenario(''pH'' \<mapsto> 7.8)) 400 ''chlorine'' \<noteq> []"
    by (simp add: calculateCorrections_pushed pushed_def stepTotalAlkalinity_def scenario_def
        Let_def PARAMETERS_totalAlkalinity_def)
  from in_range_no_correction [where rd = "scenario(''pH'' \<mapsto> 7.8)" and v = 400
      and st = "''chlorine''", OF h1 h2 h3 h4] h1 h2 h3 h4 ne
  show ?thesis unfolding n by auto
qed

text \<open>
  C8 (the scenario), as the code has it.  For total alkalinity 60, pH 8.0, calcium
  hardness 200, free chlorine 2 and cyanuric acid 20, at 400 gallons with chlorine, the
  plan has exactly four corrections, of tiers 1, 2, 4 and 5: total alkalinity raised
  towards 100, pH lowered towards 7.5, free chlorine raised towards 4 and cyanuric acid
  raised towards 40.  Calcium hardness, at 200 within 175 to 250, has no correction.
\<close>

theorem scenario_plan:
  "calculateCorrections scenario 400 ''chlorine'' =
    [\<lparr>order = 1, parameter = ''Total Alkalinity'',
       action = [Lit ''Raise from '', Num 60, Lit '' to ~'', IntNum 100, Lit '' ppm''],
       chemical = ''Sodium Bicarbonate (Baking Soda)'',
       amount = [Fixed 1 (96 / 25), Lit '' oz''],
       waitMinutes = 20, amt = Some (6 / 25)\<rparr>,
     \<lparr>order = 2, parameter = ''pH'',
       action = [Lit ''Lower from '', Fixed 1 8, Lit '' to ~'', Num 7.5],
       chemical = ''Sodium Bisulfate (pH Decreaser)'',
       amount = [Fixed 1 (6 / 5), Lit '' oz''],
       waitMinutes = 20, amt = Some (6 / 5)\<rparr>,
     \<lparr>order = 4, parameter = ''Free Chlorine'',
       action = [Lit ''Raise from '', Num 2, Lit '' to ~'', Num 4, Lit '' ppm''],
       chemical = ''Sodium Dichlor (56% Chlorine Granules)'',
       amount = [IntNum 1, Lit '' teaspoons''],
       waitMinutes = 15, amt = Some (8 / 75)\<rparr>,
     \<lparr>order = 5, parameter = ''Cyanuric Acid'',
       action = [Lit ''Raise from '', Num 20, Lit '' to ~'', IntNum 40, Lit '' ppm''],
       chemical = ''Cyanuric Acid (Stabilizer)'',
       amount = [Fixed 1 (16 / 15), Lit '' oz''],
       waitMinutes = 30, amt = Some (1 / 15)\<rparr>]"
  unfolding calculateCorrections_pushed by (rule scenario_pushed)

text \<open>The plan of the scenario does not have five corrections.\<close>

theorem scenario_counterexample:
  "length (calculateCorrections scenario 400 ''chlorine'') \<noteq> 5"
  unfolding calculateCorrections_pushed scenario_pushed by simp

text \<open>
  C10 (sanitizer type).  For a sanitizer type other than \<open>bromine\<close> the sanitizer
  step is that of free chlorine: the corrections of tier 4 are computed from the
  reading \<open>freeChlorine\<close> alone, against the ideal range of \<open>PARAMETERS.freeChlorine\<close>,
  a low reading dosed by \<open>DOSAGES.chlorineUp\<close> and a high one answered by aeration;
  they are those of the plan for \<open>chlorine\<close>, and each is named Free Chlorine.  For a
  sanitizer type other than \<open>chlorine\<close> the plan has no correction of tier 5 and none
  for Cyanuric Acid.  So the plan for a type that is neither is the plan for chlorine
  without its tier 5.
\<close>

theorem sanitizer_type_branching:
  "(st \<noteq> ''bromine'' \<longrightarrow>
      filter (\<lambda>c. order c = 4) (calculateCorrections rd v st) =
      filter (\<lambda>c. order c = 4) (calculateCorrections rd v ''chlorine'') \<and>
      (\<forall>c \<in> set (calculateCorrections rd v st). order c = 4 \<longrightarrow>
         parameter c = ''Free Chlorine'')) \<and>
   (st \<noteq> ''chlorine'' \<longrightarrow>
      (\<forall>c \<in> set (calculateCorrections rd v st).
         order c \<noteq> 5 \<and> parameter c \<noteq> ''Cyanuric Acid'')) \<and>
   (st \<noteq> ''bromine'' \<and> st \<noteq> ''chlorine'' \<longrightarrow>
      calculateCorrections rd v st =
      filter (\<lambda>c. order c \<noteq> 5) (calculateCorrections rd v ''chlorine'')) \<and>
   (st \<noteq> ''bromine'' \<longrightarrow>
      filter (\<lambda>c. order c = 4) (calculateCorrections rd v st) =
      (case rd ''freeChlorine'' of
         None \<Rightarrow> []
       | Some val \<Rightarrow>
           if val < idealMin PARAMETERS_freeChlorine then
             [\<lparr>order = 4, parameter = name PARAMETERS_freeChlorine,
               action = [Lit ''Raise from '', Num val, Lit '' to ~'',
                         Num ((idealMin PARAMETERS_freeChlorine
                               + idealMax PARAMETERS_freeChlorine) / 2), Lit '' ppm''],
               chemical = chemicalName DOSAGES_chlorineUp,
               amount = formatAmount
                 ((((idealMin PARAMETERS_freeChlorine + idealMax PARAMETERS_freeChlorine) / 2
                    - val) / changePer DOSAGES_chlorineUp)
                  * per10kGal DOSAGES_chlorineUp * (v / 10000))
                 (dosageUnit DOSAGES_chlorineUp),
               waitMinutes = 15,
               amt = Some
                 ((((idealMin PARAMETERS_freeChlorine + idealMax PARAMETERS_freeChlorine) / 2
                    - val) / changePer DOSAGES_chlorineUp)
                  * per10kGal DOSAGES_chlorineUp * (v / 10000))\<rparr>]
           else if val > idealMax PARAMETERS_freeChlorine then
             [\<lparr>order = 4, parameter = name PARAMETERS_freeChlorine,
               action = [Lit (name PARAMETERS_freeChlorine), Lit '' is high at '', Num val,
                         Lit '' ppm''],
               chemical = ''Wait & Aerate'',
               amount = [Lit ''Leave cover off, run jets''],
               waitMinutes = 30, amt = None\<rparr>]
           else []))"
proof -
  let ?s = "v / 10000"
  note shapes = stepTotalAlkalinity_shape [of rd ?s] stepPH_shape [of rd ?s]
    stepTotalHardness_shape [of rd ?s]
  note f4 = shapes [THEN filter_tier(1), of 4] shapes [THEN filter_tier(2), of 5]
    stepSanitizer_shape [THEN filter_tier(1), of 4]
    stepSanitizer_shape [THEN filter_tier(2), of 5]
    stepCyanuricAcid_shape [THEN filter_tier(1), of 4]
    stepCyanuricAcid_shape [THEN filter_tier(2), of 5]
  have a: "filter (\<lambda>c. order c = 4) (calculateCorrections rd v st') = stepSanitizer rd ?s st'"
    for st'
    by (simp add: calculateCorrections_pushed pushed_def f4)
  have b: "filter (\<lambda>c. order c \<noteq> 5) (calculateCorrections rd v st') =
      stepTotalAlkalinity rd ?s @ stepPH rd ?s @ stepTotalHardness rd ?s
      @ stepSanitizer rd ?s st'" for st'
    by (simp add: calculateCorrections_pushed pushed_def f4)
  have c1: "filter (\<lambda>c. order c = 4) (calculateCorrections rd v st) =
      filter (\<lambda>c. order c = 4) (calculateCorrections rd v ''chlorine'')"
    if "st \<noteq> ''bromine''"
    using stepSanitizer_not_bromine [OF that, of rd ?s] by (simp add: a)
  have c2: "\<forall>c \<in> set (calculateCorrections rd v st). order c = 4 \<longrightarrow>
         parameter c = ''Free Chlorine''" if "st \<noteq> ''bromine''"
  proof (intro ballI impI)
    fix c assume "c \<in> set (calculateCorrections rd v st)" "order c = 4"
    then have "c \<in> set (filter (\<lambda>c. order c = 4) (calculateCorrections rd v st))" by simp
    then have "c \<in> set (stepSanitizer rd ?s st)" by (simp only: a)
    from stepSanitizer_parameter [OF this] that show "parameter c = ''Free Chlorine''" by simp
  qed
  have c3: "\<forall>c \<in> set (calculateCorrections rd v st).
         order c \<noteq> 5 \<and> parameter c \<noteq> ''Cyanuric Acid''" if "st \<noteq> ''chlorine''"
  proof
    fix c assume "c \<in> set (calculateCorrections rd v st)"
    with that consider "c \<in> set (stepTotalAlkalinity rd ?s)" | "c \<in> set (stepPH rd ?s)"
      | "c \<in> set (stepTotalHardness rd ?s)" | "c \<in> set (stepSanitizer rd ?s st)"
      by (auto simp: set_calculateCorrections stepCyanuricAcid_not_chlorine)
    then show "order c \<noteq> 5 \<and> parameter c \<noteq> ''Cyanuric Acid''"
    proof cases
      case 1
      from stepTotalAlkalinity_order [OF 1] stepTotalAlkalinity_parameter [OF 1]
      show ?thesis by simp
    next
      case 2
      from stepPH_order [OF 2] stepPH_parameter [OF 2] show ?thesis by simp
    next
      case 3
      from stepTotalHardness_order [OF 3] stepTotalHardness_parameter [OF 3]
      show ?thesis by simp
    next
      case 4
      from stepSanitizer_order [OF 4] stepSanitizer_parameter [OF 4] show ?thesis by auto
    qed
  qed
  have c4: "calculateCorrections rd v st =
      filter (\<lambda>c. order c \<noteq> 5) (calculateCorrections rd v ''chlorine'')"
    if "st \<noteq> ''bromine''" "st \<noteq> ''chlorine''"
    using stepSanitizer_not_bromine [OF that(1), of rd ?s]
      stepCyanuricAcid_not_chlorine [OF that(2), of rd ?s]
    by (simp add: b calculateCorrections_pushed [of rd v st] pushed_def)
  have c5: "filter (\<lambda>c. order c = 4) (calculateCorrections rd v st) =
      (case rd ''freeChlorine'' of
         None \<Rightarrow> []
       | Some val \<Rightarrow>
           if val < idealMin PARAMETERS_freeChlorine then
             [\<lparr>order = 4, parameter = name PARAMETERS_freeChlorine,
               action = [Lit ''Raise from '', Num val, Lit '' to ~'',
                         Num ((idealMin PARAMETERS_freeChlorine
                               + idealMax PARAMETERS_freeChlorine) / 2), Lit '' ppm''],
               chemical = chemicalName DOSAGES_chlorineUp,
               amount = formatAmount
                 ((((idealMin PARAMETERS_freeChlorine + idealMax PARAMETERS_freeChlorine) / 2
                    - val) / changePer DOSAGES_chlorineUp)
                  * per10kGal DOSAGES_chlorineUp * (v / 10000))
                 (dosageUnit DOSAGES_chlorineUp),
               waitMinutes = 15,
               amt = Some
                 ((((idealMin PARAMETERS_freeChlorine + idealMax PARAMETERS_freeChlorine) / 2
                    - val) / changePer DOSAGES_chlorineUp)
                  * per10kGal DOSAGES_chlorineUp * (v / 10000))\<rparr>]
           else if val > idealMax PARAMETERS_freeChlorine then
             [\<lparr>order = 4, parameter = name PARAMETERS_freeChlorine,
               action = [Lit (name PARAMETERS_freeChlorine), Lit '' is high at '', Num val,
                         Lit '' ppm''],
               chemical = ''Wait & Aerate'',
               amount = [Lit ''Leave cover off, run jets''],
               waitMinutes = 30, amt = None\<rparr>]
           else [])"
    if "st \<noteq> ''bromine''"
    unfolding a using that
    by (simp add: stepSanitizer_def PARAMETERS_sanKey DOSAGES_dKey Let_def
        split: option.splits)
  from c1 c2 c3 c4 c5 show ?thesis by blast
qed

theorem sanitizer_type_branching_witness:
  "''ozone'' \<noteq> ''bromine'' \<and> ''ozone'' \<noteq> ''chlorine'' \<and>
   scenario ''freeChlorine'' = Some 2 \<and> 2 < idealMin PARAMETERS_freeChlorine \<and>
   filter (\<lambda>c. order c = 4) (calculateCorrections scenario 400 ''chlorine'') \<noteq> [] \<and>
   filter (\<lambda>c. order c = 5) (calculateCorrections scenario 400 ''chlorine'') \<noteq> [] \<and>
   map parameter (calculateCorrections scenario 400 ''ozone'') =
     [''Total Alkalinity'', ''pH'', ''Free Chlorine''] \<and>
   map (\<lambda>c. (parameter c, chemical c, amt c))
       (filter (\<lambda>c. order c = 4) (calculateCorrections scenario 400 ''ozone'')) =
     [(''Free Chlorine'', ''Sodium Dichlor (56% Chlorine Granules)'', Some (8 / 75))]"
proof -
  have h: "''ozone'' \<noteq> ''bromine''" "''ozone'' \<noteq> ''chlorine''" by simp_all
  have r: "scenario ''freeChlorine'' = Some 2" "2 < idealMin PARAMETERS_freeChlorine"
    by (simp_all add: scenario_def PARAMETERS_freeChlorine_def)
  have p: "calculateCorrections scenario 400 ''chlorine'' = pushed scenario (400 / 10000) ''chlorine''"
    by (rule calculateCorrections_pushed)
  note t = sanitizer_type_branching [of "''ozone''" scenario 400]
  from t h have 1: "calculateCorrections scenario 400 ''ozone'' =
      filter (\<lambda>c. order c \<noteq> 5) (calculateCorrections scenario 400 ''chlorine'')"
    by blast
  from t h have "filter (\<lambda>c. order c = 4) (calculateCorrections scenario 400 ''ozone'') =
      (case scenario ''freeChlorine'' of
         None \<Rightarrow> []
       | Some val \<Rightarrow>
           if val < idealMin PARAMETERS_freeChlorine then
             [\<lparr>order = 4, parameter = name PARAMETERS_freeChlorine,
               action = [Lit ''Raise from '', Num val, Lit '' to ~'',
                         Num ((idealMin PARAMETERS_freeChlorine
                               + idealMax PARAMETERS_freeChlorine) / 2), Lit '' ppm''],
               chemical = chemicalName DOSAGES_chlorineUp,
               amount = formatAmount
                 ((((idealMin PARAMETERS_freeChlorine + idealMax PARAMETERS_freeChlorine) / 2
                    - val) / changePer DOSAGES_chlorineUp)
                  * per10kGal DOSAGES_chlorineUp * (400 / 10000))
                 (dosageUnit DOSAGES_chlorineUp),
               waitMinutes = 15,
               amt = Some
                 ((((idealMin PARAMETERS_freeChlorine + idealMax PARAMETERS_freeChlorine) / 2
                    - val) / changePer DOSAGES_chlorineUp)
                  * per10kGal DOSAGES_chlorineUp * (400 / 10000))\<rparr>]
           else if val > idealMax PARAMETERS_freeChlorine then
             [\<lparr>order = 4, parameter = name PARAMETERS_freeChlorine,
               action = [Lit (name PARAMETERS_freeChlorine), Lit '' is high at '', Num val,
                         Lit '' ppm''],
               chemical = ''Wait & Aerate'',
               amount = [Lit ''Leave cover off, run jets''],
               waitMinutes = 30, amt = None\<rparr>]
           else [])"
    by blast
  then have 2: "map (\<lambda>c. (parameter c, chemical c, amt c))
       (filter (\<lambda>c. order c = 4) (calculateCorrections scenario 400 ''ozone'')) =
     [(''Free Chlorine'', ''Sodium Dichlor (56% Chlorine Granules)'', Some (8 / 75))]"
    by (simp add: scenario_def PARAMETERS_freeChlorine_def DOSAGES_chlorineUp_def)
  from 1 2 r show ?thesis unfolding p scenario_pushed by simp
qed

section \<open>The colour matcher: auxiliary facts\<close>

text \<open>
  The conversion to Lab is injective on colours whose channels lie on the power
  segment of \<open>linearize\<close>: \<open>linearize\<close> is strictly increasing there, the matrix is
  regular, and \<open>f\<close> is strictly increasing throughout (at its threshold the linear
  segment ends below the cube root).
\<close>

lemma linearize_inj:
  assumes "0.04045 < c" "0.04045 < c'" "linearize c = linearize c'"
  shows "c = c'"
proof (rule ccontr)
  assume ne: "c \<noteq> c'"
  have mono: "linearize x < linearize y" if "0.04045 < x" "x < y" for x y :: real
  proof -
    have "0 \<le> (x + 0.055) / 1.055" "(x + 0.055) / 1.055 < (y + 0.055) / 1.055"
      using that by (simp_all add: divide_strict_right_mono)
    then have "((x + 0.055) / 1.055) powr 2.4 < ((y + 0.055) / 1.055) powr 2.4"
      by (intro powr_less_mono2) simp_all
    with that show ?thesis by (simp add: linearize_def)
  qed
  from ne consider "c < c'" | "c' < c" by linarith
  then show False
    using mono [of c c'] mono [of c' c] assms by cases simp_all
qed

lemma f_boundary: "(0.008856 * 7.787 + 16 / 116 :: real) ^ 3 \<le> 0.008856"
  by (simp add: power3_eq_cube)

lemma f_strict_mono:
  assumes "t < u" shows "f t < f u"
proof -
  consider "u \<le> 0.008856" | "0.008856 < t" | "t \<le> 0.008856" "0.008856 < u"
    using assms by linarith
  then show ?thesis
  proof cases
    case 1
    with assms show ?thesis by (simp add: f_def)
  next
    case 2
    with assms show ?thesis by (simp add: f_def)
  next
    case 3
    let ?a = "0.008856 * 7.787 + 16 / 116 :: real"
    have "t * 7.787 + 16 / 116 \<le> ?a" using 3 by simp
    also have "?a = root 3 (?a ^ 3)" by (simp add: real_root_power_cancel)
    also have "\<dots> \<le> root 3 0.008856"
      using f_boundary by (simp only: real_root_le_iff zero_less_numeral)
    also have "\<dots> < root 3 u" using 3 by simp
    finally show ?thesis using 3 by (simp add: f_def)
  qed
qed

lemma f_inj: "f t = f u \<Longrightarrow> t = u"
  using f_strict_mono [of t u] f_strict_mono [of u t]
  by (cases t u rule: linorder_cases) simp_all

text \<open>The matrix from linear RGB to XYZ is regular: Cramer's rule, column by column.\<close>

lemma xyz_inj:
  fixes r g b r' g' b' :: real
  assumes "r * 0.4124564 + g * 0.3575761 + b * 0.1804375
         = r' * 0.4124564 + g' * 0.3575761 + b' * 0.1804375"
    and "r * 0.2126729 + g * 0.7151522 + b * 0.0721750
       = r' * 0.2126729 + g' * 0.7151522 + b' * 0.0721750"
    and "r * 0.0193339 + g * 0.1191920 + b * 0.9503041
       = r' * 0.0193339 + g' * 0.1191920 + b' * 0.9503041"
  shows "r = r' \<and> g = g' \<and> b = b'"
proof -
  define u v w where "u = r - r'" and "v = g - g'" and "w = b - b'"
  have e1: "4124564 * u + 3575761 * v + 1804375 * w = 0"
    using assms(1) by (simp add: u_def v_def w_def algebra_simps)
  have e2: "2126729 * u + 7151522 * v + 721750 * w = 0"
    using assms(2) by (simp add: u_def v_def w_def algebra_simps)
  have e3: "193339 * u + 1191920 * v + 9503041 * w = 0"
    using assms(3) by (simp add: u_def v_def w_def algebra_simps)
  have "207072592935094650199 * u =
      67100938518402 * (4124564 * u + 3575761 * v + 1804375 * w)
      - 31829932739201 * (2126729 * u + 7151522 * v + 721750 * w)
      - 10323222007000 * (193339 * u + 1191920 * v + 9503041 * w)"
    by (simp add: algebra_simps)
  then have u: "u = 0" unfolding e1 e2 e3 by simp
  have "207072592935094650199 * v =
      - 20070850459639 * (4124564 * u + 3575761 * v + 1804375 * w)
      + 38847044740999 * (2126729 * u + 7151522 * v + 721750 * w)
      + 860512572375 * (193339 * u + 1191920 * v + 9503041 * w)"
    by (simp add: algebra_simps)
  then have v: "v = 0" unfolding e1 e2 e3 by simp
  have "207072592935094650199 * w =
      1152222717722 * (4124564 * u + 3575761 * v + 1804375 * w)
      - 4224816266901 * (2126729 * u + 7151522 * v + 721750 * w)
      + 21892235570639 * (193339 * u + 1191920 * v + 9503041 * w)"
    by (simp add: algebra_simps)
  then have w: "w = 0" unfolding e1 e2 e3 by simp
  from u v w show ?thesis by (simp add: u_def v_def w_def)
qed

lemma rgbToLab_inj:
  assumes "0.04045 < r" "0.04045 < g" "0.04045 < b"
    and "0.04045 < r'" "0.04045 < g'" "0.04045 < b'"
    and eq: "rgbToLab r g b = rgbToLab r' g' b'"
  shows "r = r' \<and> g = g' \<and> b = b'"
proof -
  let ?x = "\<lambda>r g b. linearize r * 0.4124564 + linearize g * 0.3575761
    + linearize b * 0.1804375"
  let ?y = "\<lambda>r g b. linearize r * 0.2126729 + linearize g * 0.7151522
    + linearize b * 0.0721750"
  let ?z = "\<lambda>r g b. linearize r * 0.0193339 + linearize g * 0.1191920
    + linearize b * 0.9503041"
  from eq have l: "116 * f (?y r g b / 1.0) - 16 = 116 * f (?y r' g' b' / 1.0) - 16"
    and a: "500 * (f (?x r g b / 0.95047) - f (?y r g b / 1.0))
          = 500 * (f (?x r' g' b' / 0.95047) - f (?y r' g' b' / 1.0))"
    and b: "200 * (f (?y r g b / 1.0) - f (?z r g b / 1.08883))
          = 200 * (f (?y r' g' b' / 1.0) - f (?z r' g' b' / 1.08883))"
    by (simp_all add: rgbToLab_def Let_def)
  from l have fy: "f (?y r g b / 1.0) = f (?y r' g' b' / 1.0)" by simp
  with a have fx: "f (?x r g b / 0.95047) = f (?x r' g' b' / 0.95047)" by simp
  from fy b have fz: "f (?z r g b / 1.08883) = f (?z r' g' b' / 1.08883)" by simp
  from f_inj [OF fx] have x: "?x r g b = ?x r' g' b'" by simp
  from f_inj [OF fy] have y: "?y r g b = ?y r' g' b'" by simp
  from f_inj [OF fz] have z: "?z r g b = ?z r' g' b'" by simp
  from xyz_inj [OF x y z] have "linearize r = linearize r'" "linearize g = linearize g'"
    "linearize b = linearize b'" by simp_all
  then show ?thesis
    using linearize_inj [OF assms(1) assms(4)] linearize_inj [OF assms(2) assms(5)]
      linearize_inj [OF assms(3) assms(6)] by blast
qed

text \<open>The distance is a metric's: never negative, and zero only between equal colours.\<close>

lemma deltaE76_nonneg: "0 \<le> deltaE76 l1 l2"
  by (simp add: deltaE76_def Let_def)

lemma deltaE76_same: "deltaE76 l l = 0"
  by (simp add: deltaE76_def)

lemma deltaE76_zero: "deltaE76 l1 l2 = 0 \<Longrightarrow> l1 = (l2 :: lab)"
proof -
  assume "deltaE76 l1 l2 = 0"
  then have "(lab_l l1 - lab_l l2) * (lab_l l1 - lab_l l2)
      + ((lab_a l1 - lab_a l2) * (lab_a l1 - lab_a l2)
      + (lab_b l1 - lab_b l2) * (lab_b l1 - lab_b l2)) = 0"
    by (simp add: deltaE76_def Let_def add.assoc)
  then have "lab_l l1 - lab_l l2 = 0 \<and> lab_a l1 - lab_a l2 = 0 \<and> lab_b l1 - lab_b l2 = 0"
    by (simp add: add_nonneg_eq_0_iff)
  then show ?thesis by simp
qed

text \<open>The charts: their points, channel by channel.\<close>

lemmas chart_tables =
  COLOR_CHARTS_freeChlorine_def COLOR_CHARTS_totalChlorine_def COLOR_CHARTS_bromine_def
  COLOR_CHARTS_pH_def COLOR_CHARTS_totalAlkalinity_def COLOR_CHARTS_totalHardness_def
  COLOR_CHARTS_cyanuricAcid_def

lemma chart_cases:
  "COLOR_CHARTS_own key = Some c \<Longrightarrow>
     c = COLOR_CHARTS_freeChlorine \<or> c = COLOR_CHARTS_totalChlorine \<or>
     c = COLOR_CHARTS_bromine \<or> c = COLOR_CHARTS_pH \<or>
     c = COLOR_CHARTS_totalAlkalinity \<or> c = COLOR_CHARTS_totalHardness \<or>
     c = COLOR_CHARTS_cyanuricAcid"
  by (auto simp: COLOR_CHARTS_own_def split: if_splits)

lemma chart_gamut:
  assumes "COLOR_CHARTS_own key = Some c" and "p \<in> set (colors c)"
  shows "11 \<le> ref_r p \<and> 11 \<le> ref_g p \<and> 11 \<le> ref_b p"
  using chart_cases [OF assms(1)] assms(2)
  by (elim disjE) (auto simp: chart_tables pt_def)

lemma chart_tenths:
  assumes "COLOR_CHARTS_own key = Some c" and "p \<in> set (colors c)"
  shows "pvalue p * 10 \<in> \<int>"
  using chart_cases [OF assms(1)] assms(2)
  by (elim disjE) (auto simp: chart_tables pt_def)

lemma chart_rgb_distinct:
  assumes "COLOR_CHARTS_own key = Some c"
  shows "distinct (map (\<lambda>p. (ref_r p, ref_g p, ref_b p)) (colors c))"
  using chart_cases [OF assms(1)]
  by (elim disjE) (simp_all add: chart_tables pt_def)

lemma chart_length:
  assumes "COLOR_CHARTS_own key = Some c"
  shows "2 \<le> length (colors c)"
  using chart_cases [OF assms(1)]
  by (elim disjE) (simp_all add: chart_tables)

lemma COLOR_CHARTS_of_own:
  "COLOR_CHARTS_own key = Some c \<Longrightarrow> COLOR_CHARTS key = OwnChart c"
  by (simp add: COLOR_CHARTS_def)

text \<open>
  Two points of a chart at distance zero from one sampled colour are one point, and
  a chart point sampled exactly has distance zero to itself only.
\<close>

lemma distance_nonneg: "0 \<le> distance r g b p"
  by (simp add: distance_def deltaE76_nonneg)

lemma distance_self: "distance (ref_r p) (ref_g p) (ref_b p) p = 0"
  by (simp add: distance_def deltaE76_same)

lemma distance_zero_chart:
  assumes c: "COLOR_CHARTS_own key = Some c" and p: "p \<in> set (colors c)"
    and q: "q \<in> set (colors c)" and z: "distance (ref_r p) (ref_g p) (ref_b p) q = 0"
  shows "q = p"
proof -
  from chart_gamut [OF c p] have gp: "0.04045 < ref_r p / 255" "0.04045 < ref_g p / 255"
    "0.04045 < ref_b p / 255" by simp_all
  from chart_gamut [OF c q] have gq: "0.04045 < ref_r q / 255" "0.04045 < ref_g q / 255"
    "0.04045 < ref_b q / 255" by simp_all
  from z have "rgbToLab (ref_r p / 255) (ref_g p / 255) (ref_b p / 255)
      = rgbToLab (ref_r q / 255) (ref_g q / 255) (ref_b q / 255)"
    unfolding distance_def by (rule deltaE76_zero)
  from rgbToLab_inj [OF gp gq this]
  have "(ref_r q, ref_g q, ref_b q) = (ref_r p, ref_g p, ref_b p)" by simp
  moreover from chart_rgb_distinct [OF c]
  have "inj_on (\<lambda>p. (ref_r p, ref_g p, ref_b p)) (set (colors c))"
    by (simp add: distinct_map)
  ultimately show ?thesis using p q by (auto dest: inj_onD)
qed

text \<open>
  The loop of \<open>matchColor\<close>, once it holds a point at distance zero, keeps it; and it
  comes to hold the one point at distance zero, whatever it held before at a positive
  distance.
\<close>

lemma matchLoop_keeps:
  "matchLoop L refs (Some p, Some 0) = (Some p, Some 0)"
proof (induction refs)
  case Nil
  show ?case by simp
next
  case (Cons q refs)
  have "\<not> deltaE76 L (rgbToLab (ref_r q / 255) (ref_g q / 255) (ref_b q / 255)) < 0"
    using deltaE76_nonneg [of L] by (simp add: not_less)
  with Cons show ?case by (simp add: Let_def)
qed

lemma matchLoop_finds:
  assumes "p \<in> set refs"
    and "deltaE76 L (rgbToLab (ref_r p / 255) (ref_g p / 255) (ref_b p / 255)) = 0"
    and "\<forall>q \<in> set refs. q \<noteq> p \<longrightarrow>
      0 < deltaE76 L (rgbToLab (ref_r q / 255) (ref_g q / 255) (ref_b q / 255))"
    and "bd = None \<or> (\<exists>e. bd = Some e \<and> 0 < e)"
  shows "matchLoop L refs (bm, bd) = (Some p, Some 0)"
  using assms
proof (induction refs arbitrary: bm bd)
  case Nil
  then show ?case by simp
next
  case (Cons q refs)
  let ?d = "deltaE76 L (rgbToLab (ref_r q / 255) (ref_g q / 255) (ref_b q / 255))"
  show ?case
  proof (cases "q = p")
    case True
    with Cons.prems(2) have d: "?d = 0" by simp
    from Cons.prems(4) have "(case bd of None \<Rightarrow> True | Some best \<Rightarrow> ?d < best)"
      unfolding d by auto
    then have "matchLoop L (q # refs) (bm, bd) = matchLoop L refs (Some q, Some ?d)"
      by (simp add: Let_def)
    also have "\<dots> = matchLoop L refs (Some p, Some 0)" unfolding d using True by simp
    finally show ?thesis by (simp only: matchLoop_keeps)
  next
    case False
    with Cons.prems have p: "p \<in> set refs" and pos: "0 < ?d" by auto
    note ih = Cons.IH [OF p Cons.prems(2)]
    have rest: "\<forall>q \<in> set refs. q \<noteq> p \<longrightarrow>
      0 < deltaE76 L (rgbToLab (ref_r q / 255) (ref_g q / 255) (ref_b q / 255))"
      using Cons.prems(3) by simp
    show ?thesis
    proof (cases "case bd of None \<Rightarrow> True | Some best \<Rightarrow> ?d < best")
      case True
      then have "matchLoop L (q # refs) (bm, bd) = matchLoop L refs (Some q, Some ?d)"
        by (simp add: Let_def)
      also have "\<dots> = (Some p, Some 0)"
        using pos by (intro ih rest) simp
      finally show ?thesis .
    next
      case False
      then have "matchLoop L (q # refs) (bm, bd) = matchLoop L refs (bm, bd)"
        by (simp add: Let_def)
      also have "\<dots> = (Some p, Some 0)"
        using Cons.prems(4) by (intro ih rest)
      finally show ?thesis .
    qed
  qed
qed

text \<open>The head of a sorted array is one of its elements, and a least one.\<close>

lemma sort_key_head:
  assumes "xs \<noteq> []"
  obtains m rest where "sort_key k xs = m # rest" and "m \<in> set xs"
    and "\<forall>y \<in> set xs. k m \<le> k y"
proof -
  from assms have "sort_key k xs \<noteq> []" by (metis length_sort length_0_conv)
  then obtain m rest where s: "sort_key k xs = m # rest" by (cases "sort_key k xs") auto
  have set: "set (m # rest) = set xs" unfolding s [symmetric] by simp
  have "sorted (map k (m # rest))" unfolding s [symmetric] by (rule sorted_sort_key)
  then have "\<forall>y \<in> set (m # rest). k m \<le> k y" by auto
  with set s that show thesis by auto
qed

lemma sort_key_two:
  assumes "2 \<le> length xs"
  obtains m1 m2 rest where "sort_key k xs = m1 # m2 # rest" and "m1 \<in> set xs"
    and "m2 \<in> set xs" and "\<forall>y \<in> set xs. k m1 \<le> k y"
proof -
  from assms have xs: "xs \<noteq> []" by auto
  from sort_key_head [OF xs, of k] obtain m1 rest1 where
    s: "sort_key k xs = m1 # rest1" and m1: "m1 \<in> set xs" "\<forall>y \<in> set xs. k m1 \<le> k y"
    by blast
  have "length (m1 # rest1) = length xs" unfolding s [symmetric] by simp
  with assms obtain m2 rest where r: "rest1 = m2 # rest" by (cases rest1) auto
  have "set (m1 # m2 # rest) = set xs" unfolding r [symmetric] s [symmetric] by simp
  then have "m2 \<in> set xs" by auto
  with s r m1 that show thesis by blast
qed

text \<open>
  What \<open>matchColorInterpolated\<close> returns on a chart of its own: with \<open>m1\<close> a nearest
  point and \<open>m2\<close> the next of the sorted array, either the shortcut or the weighted
  average.
\<close>

lemma interpolated_cases:
  assumes c: "COLOR_CHARTS_own key = Some c"
  obtains m1 m2 where "m1 \<in> set (colors c)" and "m2 \<in> set (colors c)"
    and "\<forall>q \<in> set (colors c). distance r g b m1 \<le> distance r g b q"
    and "matchColorInterpolated r g b key =
      Inr (Some
        (if distance r g b m1 < 1 then
           \<lparr>mvalue = pvalue m1, deltaE = distance r g b m1, confidence = High\<rparr>
         else
           \<lparr>mvalue = real_of_int (Math_round
               ((pvalue m1 * (1 / max (distance r g b m1) 0.001)
                 + pvalue m2 * (1 / max (distance r g b m2) 0.001))
                / (1 / max (distance r g b m1) 0.001 + 1 / max (distance r g b m2) 0.001)
                * 10)) / 10,
             deltaE = distance r g b m1,
             confidence = (if distance r g b m1 < 10 then High
                           else if distance r g b m1 < 25 then Medium else Low)\<rparr>))"
proof -
  let ?mk = "\<lambda>ref. \<lparr>cref = ref, cdeltaE = distance r g b ref\<rparr>"
  let ?xs = "map ?mk (colors c)"
  from chart_length [OF c] have "2 \<le> length ?xs" by simp
  from sort_key_two [OF this, of cdeltaE] obtain n1 n2 rest where
    s: "sort_key cdeltaE ?xs = n1 # n2 # rest" and n1: "n1 \<in> set ?xs" and n2: "n2 \<in> set ?xs"
    and least: "\<forall>y \<in> set ?xs. cdeltaE n1 \<le> cdeltaE y"
    by blast
  from n1 obtain m1 where m1: "m1 \<in> set (colors c)" "n1 = ?mk m1" by auto
  from n2 obtain m2 where m2: "m2 \<in> set (colors c)" "n2 = ?mk m2" by auto
  from least m1 have le: "\<forall>q \<in> set (colors c). distance r g b m1 \<le> distance r g b q"
    by simp
  have mk: "(\<lambda>ref. \<lparr>cref = ref, cdeltaE = deltaE76 (rgbToLab (r / 255) (g / 255) (b / 255))
      (rgbToLab (ref_r ref / 255) (ref_g ref / 255) (ref_b ref / 255))\<rparr>) = ?mk"
    by (simp add: distance_def)
  have "matchColorInterpolated r g b key = Inr (Some
        (if distance r g b m1 < 1 then
           \<lparr>mvalue = pvalue m1, deltaE = distance r g b m1, confidence = High\<rparr>
         else
           \<lparr>mvalue = real_of_int (Math_round
               ((pvalue m1 * (1 / max (distance r g b m1) 0.001)
                 + pvalue m2 * (1 / max (distance r g b m2) 0.001))
                / (1 / max (distance r g b m1) 0.001 + 1 / max (distance r g b m2) 0.001)
                * 10)) / 10,
             deltaE = distance r g b m1,
             confidence = (if distance r g b m1 < 10 then High
                           else if distance r g b m1 < 25 then Medium else Low)\<rparr>))"
    unfolding matchColorInterpolated_def COLOR_CHARTS_of_own [OF c] property.case Let_def mk s
    by (simp add: m1 m2)
  then show thesis using that [OF m1(1) m2(1) le] by blast
qed

text \<open>
  Rounding to one decimal place keeps a value between two bounds that are themselves
  multiples of a tenth.
\<close>

lemma round_tenth_bounds:
  assumes "lo * 10 \<in> \<int>" and "hi * 10 \<in> \<int>" and "lo \<le> v" and "v \<le> hi"
  shows "lo \<le> real_of_int (Math_round (v * 10)) / 10
    \<and> real_of_int (Math_round (v * 10)) / 10 \<le> hi"
proof -
  from assms(1) obtain A :: int where A: "lo * 10 = of_int A" by (auto elim: Ints_cases)
  from assms(2) obtain B :: int where B: "hi * 10 = of_int B" by (auto elim: Ints_cases)
  have "of_int A \<le> v * 10 + 1 / 2" using assms(3) A by linarith
  then have 1: "A \<le> Math_round (v * 10)" by (simp add: Math_round_def le_floor_iff)
  have "v * 10 + 1 / 2 < of_int B + 1" using assms(4) B by linarith
  then have 2: "Math_round (v * 10) \<le> B" by (simp add: Math_round_def floor_le_iff)
  from 1 have "of_int A \<le> real_of_int (Math_round (v * 10))" by simp
  moreover from 2 have "real_of_int (Math_round (v * 10)) \<le> of_int B" by simp
  ultimately show ?thesis using A B by linarith
qed

text \<open>A weighted average with positive weights lies between any bounds of its two values.\<close>

lemma weighted_average_bounds:
  fixes lo hi v1 v2 w1 w2 :: real
  assumes "0 < w1" and "0 < w2" and "lo \<le> v1" "v1 \<le> hi" and "lo \<le> v2" "v2 \<le> hi"
  shows "lo \<le> (v1 * w1 + v2 * w2) / (w1 + w2) \<and> (v1 * w1 + v2 * w2) / (w1 + w2) \<le> hi"
proof -
  have w: "0 < w1 + w2" using assms by simp
  have "lo * w1 \<le> v1 * w1" "lo * w2 \<le> v2 * w2" "v1 * w1 \<le> hi * w1" "v2 * w2 \<le> hi * w2"
    using assms by (simp_all add: mult_right_mono)
  then have "lo * (w1 + w2) \<le> v1 * w1 + v2 * w2" "v1 * w1 + v2 * w2 \<le> hi * (w1 + w2)"
    by (simp_all add: distrib_left)
  with w show ?thesis by (simp add: pos_le_divide_eq pos_divide_le_eq)
qed

text \<open>A key that is neither a chart's nor inherited: both matchers return \<open>null\<close>.\<close>

lemma unknown_key_null:
  assumes "COLOR_CHARTS_own key = None" and "key \<notin> set Object_prototype_keys"
  shows "matchColor r g b key = Inr None \<and> matchColorInterpolated r g b key = Inr None"
  using assms by (simp add: matchColor_def matchColorInterpolated_def COLOR_CHARTS_def)

section \<open>The colour matcher: properties\<close>

text \<open>
  C1 (round trip).  For every chart of \<open>COLOR_CHARTS\<close> and every calibration point
  of it, \<open>matchColor\<close> called with the point's own r, g, b and the chart's key returns
  the point itself, with the point's value and \<open>deltaE\<close> zero; and
  \<open>matchColorInterpolated\<close> returns the point's value with \<open>deltaE\<close> zero and
  confidence "high".  The scenario of the specification, rgb(255,248,240) against the
  chart of free chlorine, is the instance that follows the theorem.
\<close>

theorem round_trip:
  assumes c: "COLOR_CHARTS_own key = Some c" and p: "p \<in> set (colors c)"
  shows "matchColor (ref_r p) (ref_g p) (ref_b p) key =
      Inr (Some \<lparr>mvalue = pvalue p, deltaE = 0, refColor = p\<rparr>) \<and>
    matchColorInterpolated (ref_r p) (ref_g p) (ref_b p) key =
      Inr (Some \<lparr>mvalue = pvalue p, deltaE = 0, confidence = High\<rparr>)"
proof
  let ?L = "rgbToLab (ref_r p / 255) (ref_g p / 255) (ref_b p / 255)"
  let ?d = "distance (ref_r p) (ref_g p) (ref_b p)"
  have zero: "?d q = 0 \<Longrightarrow> q = p" if "q \<in> set (colors c)" for q
    using distance_zero_chart [OF c p that] by simp
  have "\<forall>q \<in> set (colors c). q \<noteq> p \<longrightarrow> 0 < ?d q"
  proof (intro ballI impI)
    fix q assume q: "q \<in> set (colors c)" "q \<noteq> p"
    with zero [OF q(1)] have "?d q \<noteq> 0" by blast
    with distance_nonneg [of "ref_r p" "ref_g p" "ref_b p" q] show "0 < ?d q" by simp
  qed
  then have "matchLoop ?L (colors c) (None, None) = (Some p, Some 0)"
    unfolding distance_def by (intro matchLoop_finds p deltaE76_same) simp_all
  then show "matchColor (ref_r p) (ref_g p) (ref_b p) key =
      Inr (Some \<lparr>mvalue = pvalue p, deltaE = 0, refColor = p\<rparr>)"
    by (simp add: matchColor_def COLOR_CHARTS_of_own [OF c])
next
  let ?d = "distance (ref_r p) (ref_g p) (ref_b p)"
  from interpolated_cases [OF c, of "ref_r p" "ref_g p" "ref_b p"] obtain m1 m2 where
    m1: "m1 \<in> set (colors c)" and least: "\<forall>q \<in> set (colors c). ?d m1 \<le> ?d q"
    and res: "matchColorInterpolated (ref_r p) (ref_g p) (ref_b p) key =
      Inr (Some
        (if ?d m1 < 1 then \<lparr>mvalue = pvalue m1, deltaE = ?d m1, confidence = High\<rparr>
         else
           \<lparr>mvalue = real_of_int (Math_round
               ((pvalue m1 * (1 / max (?d m1) 0.001) + pvalue m2 * (1 / max (?d m2) 0.001))
                / (1 / max (?d m1) 0.001 + 1 / max (?d m2) 0.001) * 10)) / 10,
             deltaE = ?d m1,
             confidence = (if ?d m1 < 10 then High
                           else if ?d m1 < 25 then Medium else Low)\<rparr>))"
    by blast
  from least p have "?d m1 \<le> ?d p" by blast
  with distance_self [of p] distance_nonneg [of "ref_r p" "ref_g p" "ref_b p" m1]
  have d: "?d m1 = 0" by simp
  from distance_zero_chart [OF c p m1 d] have "m1 = p" .
  with res d show "matchColorInterpolated (ref_r p) (ref_g p) (ref_b p) key =
      Inr (Some \<lparr>mvalue = pvalue p, deltaE = 0, confidence = High\<rparr>)"
    by simp
qed

theorem round_trip_witness:
  "COLOR_CHARTS_own ''freeChlorine'' = Some COLOR_CHARTS_freeChlorine \<and>
   pt 0 255 248 240 \<in> set (colors COLOR_CHARTS_freeChlorine) \<and>
   matchColor 255 248 240 ''freeChlorine'' =
     Inr (Some \<lparr>mvalue = 0, deltaE = 0, refColor = pt 0 255 248 240\<rparr>) \<and>
   matchColorInterpolated 255 248 240 ''freeChlorine'' =
     Inr (Some \<lparr>mvalue = 0, deltaE = 0, confidence = High\<rparr>)"
proof -
  have h1: "COLOR_CHARTS_own ''freeChlorine'' = Some COLOR_CHARTS_freeChlorine"
    by (simp add: COLOR_CHARTS_own_def)
  have h2: "pt 0 255 248 240 \<in> set (colors COLOR_CHARTS_freeChlorine)"
    by (simp add: COLOR_CHARTS_freeChlorine_def)
  have v: "pvalue (pt 0 255 248 240) = 0" "ref_r (pt 0 255 248 240) = 255"
    "ref_g (pt 0 255 248 240) = 248" "ref_b (pt 0 255 248 240) = 240"
    by (simp_all add: pt_def)
  from round_trip [OF h1 h2] h1 h2 show ?thesis unfolding v by blast
qed

text \<open>
  C4 (interpolation boundedness).  For every sampled colour and every chart of
  \<open>COLOR_CHARTS\<close>, \<open>matchColorInterpolated\<close> returns a result, and its value lies
  between the least and the greatest concentration of the chart, in the shortcut as
  in the weighted average rounded to one decimal place.
\<close>

theorem interpolation_bounded:
  assumes c: "COLOR_CHARTS_own key = Some c"
  shows "\<exists>m. matchColorInterpolated r g b key = Inr (Some m) \<and>
    Min (pvalue ` set (colors c)) \<le> mvalue m \<and> mvalue m \<le> Max (pvalue ` set (colors c))"
proof -
  let ?d = "distance r g b"
  let ?V = "pvalue ` set (colors c)"
  let ?w = "\<lambda>q. 1 / max (?d q) 0.001"
  from chart_length [OF c] have ne: "?V \<noteq> {}" by auto
  have fin: "finite ?V" by simp
  from Min_in [OF fin ne] obtain qlo where "qlo \<in> set (colors c)" "Min ?V = pvalue qlo"
    by auto
  with chart_tenths [OF c] have lo: "Min ?V * 10 \<in> \<int>" by simp
  from Max_in [OF fin ne] obtain qhi where "qhi \<in> set (colors c)" "Max ?V = pvalue qhi"
    by auto
  with chart_tenths [OF c] have hi: "Max ?V * 10 \<in> \<int>" by simp
  have bound: "Min ?V \<le> pvalue q \<and> pvalue q \<le> Max ?V" if "q \<in> set (colors c)" for q
    using that by (simp add: Min_le Max_ge)
  from interpolated_cases [OF c, of r g b] obtain m1 m2 where
    m1: "m1 \<in> set (colors c)" and m2: "m2 \<in> set (colors c)"
    and res: "matchColorInterpolated r g b key =
      Inr (Some
        (if ?d m1 < 1 then \<lparr>mvalue = pvalue m1, deltaE = ?d m1, confidence = High\<rparr>
         else
           \<lparr>mvalue = real_of_int (Math_round
               ((pvalue m1 * ?w m1 + pvalue m2 * ?w m2) / (?w m1 + ?w m2) * 10)) / 10,
             deltaE = ?d m1,
             confidence = (if ?d m1 < 10 then High
                           else if ?d m1 < 25 then Medium else Low)\<rparr>))"
    by blast
  show ?thesis
  proof (cases "?d m1 < 1")
    case True
    with res bound [OF m1] show ?thesis by simp
  next
    case False
    have w: "0 < ?w m1" "0 < ?w m2" by simp_all
    from weighted_average_bounds [OF w] bound [OF m1] bound [OF m2]
    have "Min ?V \<le> (pvalue m1 * ?w m1 + pvalue m2 * ?w m2) / (?w m1 + ?w m2)"
      "(pvalue m1 * ?w m1 + pvalue m2 * ?w m2) / (?w m1 + ?w m2) \<le> Max ?V"
      by blast+
    from round_tenth_bounds [OF lo hi this] res False show ?thesis by simp
  qed
qed

theorem interpolation_bounded_witness:
  "COLOR_CHARTS_own ''pH'' = Some COLOR_CHARTS_pH \<and>
   Min (pvalue ` set (colors COLOR_CHARTS_pH)) = 6.4 \<and>
   Max (pvalue ` set (colors COLOR_CHARTS_pH)) = 8.4 \<and>
   (\<exists>m. matchColorInterpolated 200 120 60 ''pH'' = Inr (Some m) \<and>
      6.4 \<le> mvalue m \<and> mvalue m \<le> 8.4)"
proof -
  have h: "COLOR_CHARTS_own ''pH'' = Some COLOR_CHARTS_pH"
    by (simp add: COLOR_CHARTS_own_def)
  have lo: "Min (pvalue ` set (colors COLOR_CHARTS_pH)) = 6.4"
    and hi: "Max (pvalue ` set (colors COLOR_CHARTS_pH)) = 8.4"
    by (simp_all add: COLOR_CHARTS_pH_def pt_def)
  from interpolation_bounded [OF h, of 200 120 60] h lo hi show ?thesis by simp
qed

text \<open>
  C5 (confidence).  For every sampled colour and every chart of \<open>COLOR_CHARTS\<close>,
  \<open>matchColorInterpolated\<close> returns a result whose \<open>deltaE\<close> is the distance to the
  nearest point of the chart and whose confidence is the step function of that
  distance: "high" below 10 (so also in the shortcut below 1), "medium" below 25,
  "low" otherwise.  The step function never improves as the distance grows.
\<close>

theorem confidence_step:
  "(COLOR_CHARTS_own key = Some c \<longrightarrow>
      (\<exists>m. matchColorInterpolated r g b key = Inr (Some m) \<and>
         deltaE m = nearestDistance r g b c \<and>
         confidence m = stepConfidence (deltaE m))) \<and>
   (d \<le> d' \<longrightarrow> confidenceRank (stepConfidence d) \<le> confidenceRank (stepConfidence d'))"
proof (intro conjI impI)
  assume c: "COLOR_CHARTS_own key = Some c"
  let ?d = "distance r g b"
  from interpolated_cases [OF c, of r g b] obtain m1 m2 where
    m1: "m1 \<in> set (colors c)" and least: "\<forall>q \<in> set (colors c). ?d m1 \<le> ?d q"
    and res: "matchColorInterpolated r g b key =
      Inr (Some
        (if ?d m1 < 1 then \<lparr>mvalue = pvalue m1, deltaE = ?d m1, confidence = High\<rparr>
         else
           \<lparr>mvalue = real_of_int (Math_round
               ((pvalue m1 * (1 / max (?d m1) 0.001) + pvalue m2 * (1 / max (?d m2) 0.001))
                / (1 / max (?d m1) 0.001 + 1 / max (?d m2) 0.001) * 10)) / 10,
             deltaE = ?d m1,
             confidence = (if ?d m1 < 10 then High
                           else if ?d m1 < 25 then Medium else Low)\<rparr>))"
    by blast
  have "Min (?d ` set (colors c)) = ?d m1"
    using m1 least by (intro Min_eqI) auto
  then have near: "nearestDistance r g b c = ?d m1" by (simp add: nearestDistance_def)
  show "\<exists>m. matchColorInterpolated r g b key = Inr (Some m) \<and>
         deltaE m = nearestDistance r g b c \<and>
         confidence m = stepConfidence (deltaE m)"
    unfolding res near by (simp add: stepConfidence_def)
next
  assume "d \<le> d'"
  then show "confidenceRank (stepConfidence d) \<le> confidenceRank (stepConfidence d')"
    by (simp add: stepConfidence_def)
qed

theorem confidence_step_witness:
  "COLOR_CHARTS_own ''freeChlorine'' = Some COLOR_CHARTS_freeChlorine \<and>
   (\<exists>m. matchColorInterpolated 255 248 240 ''freeChlorine'' = Inr (Some m) \<and>
      deltaE m = nearestDistance 255 248 240 COLOR_CHARTS_freeChlorine \<and>
      confidence m = stepConfidence (deltaE m)) \<and>
   (12 :: real) \<le> 30 \<and>
   stepConfidence 12 = Medium \<and> stepConfidence 30 = Low \<and>
   confidenceRank (stepConfidence 12) \<le> confidenceRank (stepConfidence 30)"
proof -
  have h: "COLOR_CHARTS_own ''freeChlorine'' = Some COLOR_CHARTS_freeChlorine"
    by (simp add: COLOR_CHARTS_own_def)
  have s: "stepConfidence 12 = Medium" "stepConfidence 30 = Low"
    by (simp_all add: stepConfidence_def)
  from confidence_step [of "''freeChlorine''" COLOR_CHARTS_freeChlorine 255 248 240 12 30] h s
  show ?thesis by simp
qed

text \<open>
  C9 (unknown key).  The key \<open>constructor\<close> names no chart, yet neither matcher
  returns \<open>null\<close> for it: the read \<open>COLOR_CHARTS[chartKey]\<close> finds the function that
  the object literal inherits, the test \<open>!chart\<close> fails, and reading the missing
  \<open>chart.colors\<close> throws a \<open>TypeError\<close> in both.
\<close>

theorem inherited_key_throws:
  "COLOR_CHARTS_own ''constructor'' = None \<and>
   matchColor 255 248 240 ''constructor'' = Inl TypeError \<and>
   matchColorInterpolated 255 248 240 ''constructor'' = Inl TypeError"
  by (simp add: matchColor_def matchColorInterpolated_def COLOR_CHARTS_def
      COLOR_CHARTS_own_def Object_prototype_keys_def)

end
